theory Spec2Isabelle
  imports Complex_Main "HOL-Library.AList"
begin

section \<open>Dynamic values of the host language\<close>

text \<open>
  The engine is TypeScript. Fields declared \<^verbatim>\<open>any\<close> (a property's value, a condition's
  value, a change's value, the custom data of an item) hold dynamic values; they are modelled
  by the datatype \<open>jsval\<close>. The fragment that is modelled:
  \<^item> numbers held in dynamic values are integers (no fractions, no NaN or Infinity as stored
    values); the numbers that the engine computes with, outcome weights and random draws,
    are doubles and have a model of their own below;
  \<^item> strings are lists of characters (ASCII, where a character is one UTF-16 code unit);
  \<^item> an array or an object is a value tree. Two arrays or two objects met in a comparison
    are taken to be two distinct references (conditions and changes are declarative data
    built apart from the item), so \<^verbatim>\<open>===\<close> between them is false;
  \<^item> member access on a dynamic value reads own members only (and \<^verbatim>\<open>length\<close> of arrays and
    strings): in dynamic values, in the properties of an item, in the table of custom
    evaluators and in the table of guides every key is taken not to name a member
    inherited from a built-in prototype (\<^verbatim>\<open>toString\<close>, \<^verbatim>\<open>constructor\<close>, ...). In the
    registry of actions and in the table of handlers the inherited members are modelled.
  The order of the members of an object is their insertion order.
\<close>

datatype jsval =
    VUndef
  | VNull
  | VBool bool
  | VNum int
  | VStr string
  | VArr "jsval list"
  | VObj "(string \<times> jsval) list"

text \<open>The result of \<^verbatim>\<open>Number(v)\<close>: an integer or NaN.\<close>

datatype jsnum = NaN | Num int

text \<open>Decimal digits of a natural number and of an integer, as \<^verbatim>\<open>String(n)\<close> prints them.\<close>

fun show_nat :: "nat \<Rightarrow> string" where
  "show_nat n =
     (if n < 10 then [''0123456789'' ! n]
      else show_nat (n div 10) @ [''0123456789'' ! (n mod 10)])"

declare show_nat.simps [simp del]

definition show_int :: "int \<Rightarrow> string" where
  "show_int i = (if i < 0 then CHR ''-'' # show_nat (nat (- i)) else show_nat (nat i))"

text \<open>\<^verbatim>\<open>xs.join(sep)\<close> on strings.\<close>

fun join :: "string \<Rightarrow> string list \<Rightarrow> string" where
  "join sep [] = []"
| "join sep [x] = x"
| "join sep (x # y # ys) = x @ sep @ join sep (y # ys)"

text \<open>
  \<^verbatim>\<open>String(v)\<close>. An array prints its elements joined by commas, with \<^verbatim>\<open>null\<close> and
  \<^verbatim>\<open>undefined\<close> elements printed as the empty string; a plain object prints as
  \<^verbatim>\<open>[object Object]\<close>.
\<close>

fun to_string :: "jsval \<Rightarrow> string" where
  "to_string VUndef = ''undefined''"
| "to_string VNull = ''null''"
| "to_string (VBool b) = (if b then ''true'' else ''false'')"
| "to_string (VNum n) = show_int n"
| "to_string (VStr s) = s"
| "to_string (VArr xs) =
     join '','' (map (\<lambda>x. if x = VUndef \<or> x = VNull then [] else to_string x) xs)"
| "to_string (VObj fs) = ''[object Object]''"

text \<open>
  \<^verbatim>\<open>Number(s)\<close> on a string: white space is trimmed, the empty string is 0, an optionally
  signed run of decimal digits is that integer. Every other string is NaN in the model; the
  host language also reads fractions, exponents, \<^verbatim>\<open>0x\<close>, \<^verbatim>\<open>0o\<close>, \<^verbatim>\<open>0b\<close> and
  \<^verbatim>\<open>Infinity\<close>, which are outside the modelled fragment of numbers.
\<close>

definition is_space :: "char \<Rightarrow> bool" where
  "is_space c = (c = CHR '' '' \<or> c = CHR 0x09 \<or> c = CHR 0x0A \<or> c = CHR 0x0B
                 \<or> c = CHR 0x0C \<or> c = CHR 0x0D)"

definition trim :: "string \<Rightarrow> string" where
  "trim s = rev (dropWhile is_space (rev (dropWhile is_space s)))"

text \<open>\<^verbatim>\<open>xs.indexOf(x)\<close>: the first position of \<open>x\<close>, or -1.\<close>

fun indexOf :: "'a list \<Rightarrow> 'a \<Rightarrow> int" where
  "indexOf [] x = - 1"
| "indexOf (y # ys) x = (if y = x then 0 else (let r = indexOf ys x in if r < 0 then - 1 else r + 1))"

text \<open>The value of a decimal digit: its position among the ten digits.\<close>

definition digit_val :: "char \<Rightarrow> nat option" where
  "digit_val c = (let i = indexOf ''0123456789'' c in if i < 0 then None else Some (nat i))"

fun read_digits :: "nat \<Rightarrow> string \<Rightarrow> nat option" where
  "read_digits acc [] = Some acc"
| "read_digits acc (c # cs) =
     (case digit_val c of None \<Rightarrow> None | Some d \<Rightarrow> read_digits (10 * acc + d) cs)"

definition read_unsigned :: "string \<Rightarrow> nat option" where
  "read_unsigned s = (if s = [] then None else read_digits 0 s)"

definition string_to_number :: "string \<Rightarrow> jsnum" where
  "string_to_number s =
     (case trim s of
        [] \<Rightarrow> Num 0
      | c # cs \<Rightarrow>
          if c = CHR ''-'' then (case read_unsigned cs of None \<Rightarrow> NaN | Some n \<Rightarrow> Num (- int n))
          else if c = CHR ''+'' then (case read_unsigned cs of None \<Rightarrow> NaN | Some n \<Rightarrow> Num (int n))
          else (case read_unsigned (c # cs) of None \<Rightarrow> NaN | Some n \<Rightarrow> Num (int n)))"

text \<open>\<^verbatim>\<open>Number(v)\<close>: an array or object is first printed as a string.\<close>

definition to_number :: "jsval \<Rightarrow> jsnum" where
  "to_number v =
     (case v of
        VUndef \<Rightarrow> NaN
      | VNull \<Rightarrow> Num 0
      | VBool b \<Rightarrow> Num (if b then 1 else 0)
      | VNum n \<Rightarrow> Num n
      | VStr s \<Rightarrow> string_to_number s
      | VArr xs \<Rightarrow> string_to_number (to_string v)
      | VObj fs \<Rightarrow> string_to_number (to_string v))"

text \<open>\<^verbatim>\<open>a < b\<close> and \<^verbatim>\<open>a > b\<close> on numbers: false when either side is NaN.\<close>

definition num_less :: "jsnum \<Rightarrow> jsnum \<Rightarrow> bool" where
  "num_less a b = (case a of NaN \<Rightarrow> False | Num x \<Rightarrow> (case b of NaN \<Rightarrow> False | Num y \<Rightarrow> x < y))"

definition num_greater :: "jsnum \<Rightarrow> jsnum \<Rightarrow> bool" where
  "num_greater a b = num_less b a"

text \<open>Truthiness, as \<^verbatim>\<open>if (v)\<close>, \<^verbatim>\<open>!v\<close> and \<^verbatim>\<open>v || d\<close> test it.\<close>

definition truthy :: "jsval \<Rightarrow> bool" where
  "truthy v =
     (case v of
        VUndef \<Rightarrow> False
      | VNull \<Rightarrow> False
      | VBool b \<Rightarrow> b
      | VNum n \<Rightarrow> n \<noteq> 0
      | VStr s \<Rightarrow> s \<noteq> []
      | VArr xs \<Rightarrow> True
      | VObj fs \<Rightarrow> True)"

text \<open>
  Strict equality \<^verbatim>\<open>a === b\<close>: same type and same value on primitives, reference identity
  on arrays and objects (two distinct references in the model, hence false).
\<close>

fun strict_eq :: "jsval \<Rightarrow> jsval \<Rightarrow> bool" where
  "strict_eq VUndef VUndef = True"
| "strict_eq VNull VNull = True"
| "strict_eq (VBool a) (VBool b) = (a = b)"
| "strict_eq (VNum a) (VNum b) = (a = b)"
| "strict_eq (VStr a) (VStr b) = (a = b)"
| "strict_eq a b = False"

text \<open>
  Loose equality \<^verbatim>\<open>a == b\<close>, the type-coercing comparison: \<^verbatim>\<open>null\<close> and
  \<^verbatim>\<open>undefined\<close> equal each other and nothing else; an array or object is first printed as
  a string; a number, a string and a boolean of different types are compared as numbers.
\<close>

definition is_object :: "jsval \<Rightarrow> bool" where
  "is_object v = (case v of VArr xs \<Rightarrow> True | VObj fs \<Rightarrow> True | _ \<Rightarrow> False)"

definition to_primitive :: "jsval \<Rightarrow> jsval" where
  "to_primitive v = (if is_object v then VStr (to_string v) else v)"

definition is_nullish :: "jsval \<Rightarrow> bool" where
  "is_nullish v = (v = VUndef \<or> v = VNull)"

definition num_eq :: "jsnum \<Rightarrow> jsnum \<Rightarrow> bool" where
  "num_eq a b = (case a of NaN \<Rightarrow> False | Num x \<Rightarrow> (case b of NaN \<Rightarrow> False | Num y \<Rightarrow> x = y))"

definition loose_eq :: "jsval \<Rightarrow> jsval \<Rightarrow> bool" where
  "loose_eq a b =
     (if is_object a \<and> is_object b then False
      else if is_nullish a \<or> is_nullish b then is_nullish a \<and> is_nullish b
      else (case (to_primitive a, to_primitive b) of
              (VStr s, VStr t) \<Rightarrow> s = t
            | (x, y) \<Rightarrow> num_eq (to_number x) (to_number y)))"

text \<open>
  Member access \<^verbatim>\<open>v?.[key]\<close>: \<^verbatim>\<open>undefined\<close> on \<^verbatim>\<open>null\<close> and \<^verbatim>\<open>undefined\<close>, the
  member of an object, the element or the length of an array or string. An array index is
  a key that is the decimal print of a position of the array.
\<close>

definition index_key :: "string \<Rightarrow> nat \<Rightarrow> nat option" where
  "index_key key n = (case filter (\<lambda>i. show_nat i = key) [0..<n] of [] \<Rightarrow> None | i # _ \<Rightarrow> Some i)"

definition get_member :: "jsval \<Rightarrow> string \<Rightarrow> jsval" where
  "get_member v key =
     (case v of
        VObj fs \<Rightarrow> (case map_of fs key of None \<Rightarrow> VUndef | Some x \<Rightarrow> x)
      | VArr xs \<Rightarrow>
          (if key = ''length'' then VNum (int (length xs))
           else (case index_key key (length xs) of None \<Rightarrow> VUndef | Some i \<Rightarrow> xs ! i))
      | VStr s \<Rightarrow>
          (if key = ''length'' then VNum (int (length s))
           else (case index_key key (length s) of None \<Rightarrow> VUndef | Some i \<Rightarrow> VStr [s ! i]))
      | _ \<Rightarrow> VUndef)"

text \<open>\<^verbatim>\<open>s.split('.')\<close>.\<close>

fun split_dot :: "string \<Rightarrow> string list" where
  "split_dot [] = [[]]"
| "split_dot (c # cs) =
     (if c = CHR ''.'' then [] # split_dot cs
      else (case split_dot cs of [] \<Rightarrow> [[c]] | p # ps \<Rightarrow> (c # p) # ps))"

text \<open>\<^verbatim>\<open>s.includes(t)\<close> on strings: \<open>t\<close> occurs in \<open>s\<close>.\<close>

fun starts_with :: "string \<Rightarrow> string \<Rightarrow> bool" where
  "starts_with s [] = True"
| "starts_with [] (c # t) = False"
| "starts_with (a # s) (c # t) = (a = c \<and> starts_with s t)"

fun str_includes :: "string \<Rightarrow> string \<Rightarrow> bool" where
  "str_includes [] t = (t = [])"
| "str_includes (a # s) t = (starts_with (a # s) t \<or> str_includes s t)"

text \<open>\<^verbatim>\<open>xs.includes(v)\<close> on arrays (on the modelled values, the comparison of \<^verbatim>\<open>===\<close>).\<close>

definition arr_includes :: "jsval list \<Rightarrow> jsval \<Rightarrow> bool" where
  "arr_includes xs v = list_ex (\<lambda>x. strict_eq x v) xs"


text \<open>
  \<^verbatim>\<open>JSON.parse(JSON.stringify(v))\<close> on a value other than \<^verbatim>\<open>undefined\<close>: a member whose
  value is \<^verbatim>\<open>undefined\<close> is left out of an object, and an \<^verbatim>\<open>undefined\<close> element of an
  array becomes \<^verbatim>\<open>null\<close>. A serialized text is modelled by the document it denotes
  (\<open>Doc\<close>) or is not JSON at all (\<open>Malformed\<close>); the concrete syntax of JSON is the
  host library's and is not modelled.
\<close>

fun json_clean :: "jsval \<Rightarrow> jsval" where
  "json_clean (VArr xs) = VArr (map (\<lambda>x. if x = VUndef then VNull else json_clean x) xs)"
| "json_clean (VObj fs) =
     VObj (map (\<lambda>kv. (fst kv, json_clean (snd kv))) (filter (\<lambda>kv. snd kv \<noteq> VUndef) fs))"
| "json_clean v = v"


section \<open>Numbers of the engine\<close>

text \<open>
  An outcome weight and a random draw are numbers of the host language: IEEE 754 doubles.
  A double is a finite value, an infinity or NaN; a finite double is represented by its
  exact rational value. The sign of zero is not kept: the engine adds, multiplies, compares
  and floors these numbers, and on those operations \<^verbatim>\<open>+0\<close> and \<^verbatim>\<open>-0\<close> agree.
\<close>

datatype jsdouble = Finite rat | PosInf | NegInf | NotANumber

definition pow2 :: "int \<Rightarrow> rat" where
  "pow2 k = (if 0 \<le> k then of_int (2 ^ nat k) else 1 / of_int (2 ^ nat (- k)))"

text \<open>The number of binary digits of a positive integer.\<close>

function bit_length :: "int \<Rightarrow> nat" where
  "bit_length n = (if n \<le> 0 then 0 else Suc (bit_length (n div 2)))"
  by pat_completeness auto

termination bit_length
  by (relation "measure nat") auto

declare bit_length.simps [simp del]

text \<open>The exponent of the leading binary digit of a positive rational.\<close>

definition floor_log2 :: "rat \<Rightarrow> int" where
  "floor_log2 a =
     (if 1 \<le> a then int (bit_length \<lfloor>a\<rfloor>) - 1
      else (let j = int (bit_length \<lfloor>1 / a\<rfloor>) - 1
            in if pow2 (- j) \<le> a then - j else - j - 1))"

definition round_half_even :: "rat \<Rightarrow> int" where
  "round_half_even x =
     (let f = \<lfloor>x\<rfloor>; r = x - of_int f
      in if r < 1 / 2 then f else if 1 / 2 < r then f + 1 else if even f then f else f + 1)"

text \<open>
  The double that an exact result rounds to: round to nearest, ties to even, with 53
  significant binary digits, the least exponent -1022 (below it the spacing stays
  \<^verbatim>\<open>2^-1074\<close>) and overflow to an infinity from \<^verbatim>\<open>2^1024\<close> on.
\<close>

definition round_double :: "rat \<Rightarrow> jsdouble" where
  "round_double x =
     (let a = \<bar>x\<bar>;
          ex = (if a = 0 then - 1022 else max (floor_log2 a) (- 1022));
          ulp = pow2 (ex - 52);
          r = of_int (round_half_even (a / ulp)) * ulp
      in if pow2 1024 \<le> r then (if 0 < x then PosInf else NegInf)
         else Finite (if x < 0 then - r else r))"

text \<open>\<^verbatim>\<open>x + y\<close>, \<^verbatim>\<open>x * y\<close> and \<^verbatim>\<open>x <= y\<close> on doubles.\<close>

definition js_add :: "jsdouble \<Rightarrow> jsdouble \<Rightarrow> jsdouble" where
  "js_add x y =
     (case (x, y) of
        (Finite a, Finite b) \<Rightarrow> round_double (a + b)
      | (NotANumber, _) \<Rightarrow> NotANumber
      | (_, NotANumber) \<Rightarrow> NotANumber
      | (PosInf, NegInf) \<Rightarrow> NotANumber
      | (NegInf, PosInf) \<Rightarrow> NotANumber
      | (Finite a, _) \<Rightarrow> y
      | _ \<Rightarrow> x)"

definition double_sign :: "jsdouble \<Rightarrow> int" where
  "double_sign x =
     (case x of
        Finite a \<Rightarrow> (if 0 < a then 1 else if a < 0 then - 1 else 0)
      | PosInf \<Rightarrow> 1
      | NegInf \<Rightarrow> - 1
      | NotANumber \<Rightarrow> 0)"

definition js_mul :: "jsdouble \<Rightarrow> jsdouble \<Rightarrow> jsdouble" where
  "js_mul x y =
     (case (x, y) of
        (Finite a, Finite b) \<Rightarrow> round_double (a * b)
      | _ \<Rightarrow> (if x = NotANumber \<or> y = NotANumber \<or> double_sign x * double_sign y = 0
              then NotANumber
              else if 0 < double_sign x * double_sign y then PosInf else NegInf))"

definition js_le :: "jsdouble \<Rightarrow> jsdouble \<Rightarrow> bool" where
  "js_le x y =
     (case (x, y) of
        (Finite a, Finite b) \<Rightarrow> a \<le> b
      | (NotANumber, _) \<Rightarrow> False
      | (_, NotANumber) \<Rightarrow> False
      | (NegInf, _) \<Rightarrow> True
      | (_, PosInf) \<Rightarrow> True
      | _ \<Rightarrow> False)"

text \<open>
  \<^verbatim>\<open>Math.floor(r * k)\<close> for a draw \<open>r\<close> and a small constant \<open>k\<close>: the product is rounded
  before it is floored. It is finite for every draw in [0, 1).
\<close>

definition floor_scaled :: "rat \<Rightarrow> rat \<Rightarrow> int" where
  "floor_scaled r k = (case round_double (r * k) of Finite x \<Rightarrow> \<lfloor>x\<rfloor> | _ \<Rightarrow> 0)"

section \<open>Keyed tables of the engine\<close>

text \<open>
  The registry of actions and the table of handlers are plain objects indexed by a string
  (\<^verbatim>\<open>this.actions[id]\<close>, \<^verbatim>\<open>this.customHandlers[name]\<close>). Such a read finds the entry stored
  under the key, and otherwise what the object inherits: a plain object inherits the
  members of \<^verbatim>\<open>Object.prototype\<close>, which are functions (and, under \<^verbatim>\<open>__proto__\<close>, the
  prototype itself), so a read under one of their names yields a value that is neither an
  entry nor \<^verbatim>\<open>undefined\<close>. An assignment under the key \<^verbatim>\<open>__proto__\<close> stores no entry: it
  makes the assigned object the prototype, which a later read under \<^verbatim>\<open>__proto__\<close> returns
  and in which a later read under any key without an entry is looked up. The tables keep
  that assignment as the entry under \<^verbatim>\<open>__proto__\<close>; what a read then finds in the
  replaced prototype is not followed (\<open>Untracked\<close>).
\<close>

datatype 'a member = Absent | Inherited | Untracked | Own 'a

definition object_prototype_members :: "string list" where
  "object_prototype_members =
     [''constructor'', ''__defineGetter__'', ''__defineSetter__'', ''hasOwnProperty'',
      ''__lookupGetter__'', ''__lookupSetter__'', ''isPrototypeOf'', ''propertyIsEnumerable'',
      ''toString'', ''valueOf'', ''__proto__'', ''toLocaleString'']"

definition member_of :: "(string \<Rightarrow> 'a option) \<Rightarrow> string \<Rightarrow> 'a member" where
  "member_of table k =
     (case table k of
        Some v \<Rightarrow> Own v
      | None \<Rightarrow> (if table ''__proto__'' \<noteq> None then Untracked
                 else if k \<in> set object_prototype_members then Inherited
                 else Absent))"

section \<open>Errors and the environment\<close>

text \<open>
  Every \<^verbatim>\<open>throw\<close> of the engine is a value of \<open>error\<close>. \<open>TypeError\<close> is the host
  language's error on reading a member of \<^verbatim>\<open>undefined\<close>; \<open>SyntaxError\<close> is
  \<^verbatim>\<open>JSON.parse\<close> on a text that is not JSON. \<open>Unmodelled\<close> is not an error of the engine:
  it marks an input on which the model does not say what the engine does (a dynamic value
  of a type that the declared type of the field it flows into excludes).
\<close>

datatype error =
    UnknownOperator string
  | PreconditionsNotMet string
  | NoValidOutcomes string
  | ActionNotFound string
  | GuideNotFound string
  | InvalidItem "string list"
  | InvalidGuide "string list"
  | TypeError
  | SyntaxError
  | Unmodelled

text \<open>
  The engine draws identifiers from \<^verbatim>\<open>uuidv4()\<close>, random numbers in [0, 1) from
  \<^verbatim>\<open>Math.random()\<close> and time stamps from \<^verbatim>\<open>new Date()\<close>. The environment holds the
  sources as sequences with the number of draws made so far; a random draw is the exact
  value of the double that \<^verbatim>\<open>Math.random()\<close> returns, a time stamp is represented by its
  ISO string.

  \<^verbatim>\<open>uuidv4\<close> is the function \<^verbatim>\<open>v4\<close> of the library \<^verbatim>\<open>uuid\<close>: 122 random bits printed as
  text, which the engine takes to be unique. The model makes the identifiers unique by
  construction: the \<open>n\<close>-th identifier drawn in a run is the text \<^verbatim>\<open>uuid-n\<close>, so no two
  draws agree, and where the engine draws the identifier that replaces the one a value
  has (\<^verbatim>\<open>cloneItem\<close>, \<^verbatim>\<open>importGuide\<close>), the draw passes over the identifier being replaced
  (\<open>uuidv4_unlike\<close>). The event that the library returns an identifier a second time,
  of probability about \<^verbatim>\<open>2^-122\<close> for each pair of draws, does not occur in the model.
\<close>

record Env =
  uuid_count :: nat
  random_source :: "nat \<Rightarrow> rat"
  random_count :: nat
  clock_source :: "nat \<Rightarrow> string"
  clock_count :: nat

definition uuid_text :: "nat \<Rightarrow> string" where
  "uuid_text n = ''uuid-'' @ show_nat n"

definition uuidv4 :: "Env \<Rightarrow> string \<times> Env" where
  "uuidv4 e = (uuid_text (uuid_count e), e\<lparr>uuid_count := Suc (uuid_count e)\<rparr>)"

definition uuidv4_unlike :: "string \<Rightarrow> Env \<Rightarrow> string \<times> Env" where
  "uuidv4_unlike held e = (let (u, e1) = uuidv4 e in if u = held then uuidv4 e1 else (u, e1))"

definition Math_random :: "Env \<Rightarrow> rat \<times> Env" where
  "Math_random e = (random_source e (random_count e), e\<lparr>random_count := Suc (random_count e)\<rparr>)"

definition new_Date :: "Env \<Rightarrow> string \<times> Env" where
  "new_Date e = (clock_source e (clock_count e), e\<lparr>clock_count := Suc (clock_count e)\<rparr>)"

section \<open>Item model (itemUtils)\<close>

text \<open>
  The records follow the interfaces ItemProperty, ItemModifier, ItemSocket and Item of
  \<^verbatim>\<open>types/core\<close>. The unions of string literals (the rarity, the type of a modifier, the
  colour of a socket) are strings: the code compares them as strings and has default
  branches. \<^verbatim>\<open>properties\<close> is a keyed object, kept as an association list in insertion
  order.
\<close>

record ItemProperty =
  prop_id :: string
  prop_name :: string
  prop_value :: jsval
  prop_type :: string

record ItemModifier =
  mod_id :: string
  mod_name :: string
  tier :: int
  mod_values :: "(string \<times> jsval) list"
  mod_type :: string
  mod_tags :: "string list"

record ItemSocket =
  socket_id :: string
  color :: string
  links :: "string list"

record Item =
  item_id :: string
  item_name :: string
  baseType :: string
  itemLevel :: int
  quality :: int
  isCorrupted :: bool
  isIdentified :: bool
  rarity :: string
  properties :: "(string \<times> ItemProperty) list"
  modifiers :: "ItemModifier list"
  sockets :: "ItemSocket list"
  customData :: "(string \<times> jsval) list"
  item_tags :: "string list"

subsection \<open>Factories\<close>

definition createEmptyItem :: "string \<Rightarrow> string \<Rightarrow> Env \<Rightarrow> Item \<times> Env" where
  "createEmptyItem bt nm e =
     (let (u, e1) = uuidv4 e in
      (\<lparr>item_id = u, item_name = nm, baseType = bt, itemLevel = 1, quality = 0,
        isCorrupted = False, isIdentified = True, rarity = ''normal'', properties = [],
        modifiers = [], sockets = [], customData = [], item_tags = []\<rparr>, e1))"


definition createModifier ::
  "string \<Rightarrow> int \<Rightarrow> string \<Rightarrow> (string \<times> jsval) list \<Rightarrow> string list \<Rightarrow> Env \<Rightarrow> ItemModifier \<times> Env" where
  "createModifier nm t ty vals tgs e =
     (let (u, e1) = uuidv4 e in
      (\<lparr>mod_id = u, mod_name = nm, tier = t, mod_values = vals, mod_type = ty, mod_tags = tgs\<rparr>, e1))"

definition createSocket :: "string \<Rightarrow> string list \<Rightarrow> Env \<Rightarrow> ItemSocket \<times> Env" where
  "createSocket c ls e =
     (let (u, e1) = uuidv4 e in (\<lparr>socket_id = u, color = c, links = ls\<rparr>, e1))"

subsection \<open>Mutators\<close>


definition updateProperty :: "Item \<Rightarrow> string \<Rightarrow> jsval \<Rightarrow> Item" where
  "updateProperty item nm v =
     (case map_of (properties item) nm of
        None \<Rightarrow> item
      | Some p \<Rightarrow> item\<lparr>properties := AList.update nm (p\<lparr>prop_value := v\<rparr>) (properties item)\<rparr>)"


definition addModifier :: "Item \<Rightarrow> ItemModifier \<Rightarrow> Item" where
  "addModifier item modifier = item\<lparr>modifiers := modifiers item @ [modifier]\<rparr>"

definition removeModifier :: "Item \<Rightarrow> string \<Rightarrow> Item" where
  "removeModifier item modifierId =
     item\<lparr>modifiers := filter (\<lambda>m. mod_id m \<noteq> modifierId) (modifiers item)\<rparr>"

definition addSocket :: "Item \<Rightarrow> ItemSocket \<Rightarrow> Item" where
  "addSocket item socket = item\<lparr>sockets := sockets item @ [socket]\<rparr>"

definition removeSocket :: "Item \<Rightarrow> string \<Rightarrow> Item" where
  "removeSocket item socketId =
     item\<lparr>sockets := filter (\<lambda>s. socket_id s \<noteq> socketId) (sockets item)\<rparr>"

definition linkSockets :: "Item \<Rightarrow> string list \<Rightarrow> Item" where
  "linkSockets item socketIds =
     item\<lparr>sockets :=
       map (\<lambda>s. if List.member socketIds (socket_id s)
                then s\<lparr>links := filter (\<lambda>i. i \<noteq> socket_id s) socketIds\<rparr> else s)
           (sockets item)\<rparr>"

definition corruptItem :: "Item \<Rightarrow> Item" where
  "corruptItem item = item\<lparr>isCorrupted := True\<rparr>"

subsection \<open>Queries\<close>

text \<open>
  \<^verbatim>\<open>hasProperty\<close> and \<^verbatim>\<open>hasModifier\<close> are called with a condition's dynamic value:
  \<^verbatim>\<open>name in item.properties\<close> turns it into a key with \<^verbatim>\<open>String\<close>, and
  \<^verbatim>\<open>mod.name === name\<close> compares it strictly with each modifier's name. \<^verbatim>\<open>getModifier\<close>
  is called with a segment of a path, which is absent when the path is too short.
\<close>

definition hasProperty :: "Item \<Rightarrow> jsval \<Rightarrow> bool" where
  "hasProperty item propertyName = (map_of (properties item) (to_string propertyName) \<noteq> None)"

definition getPropertyValue :: "Item \<Rightarrow> string \<Rightarrow> jsval" where
  "getPropertyValue item propertyName =
     (case map_of (properties item) propertyName of None \<Rightarrow> VUndef | Some p \<Rightarrow> prop_value p)"

definition hasModifier :: "Item \<Rightarrow> jsval \<Rightarrow> bool" where
  "hasModifier item modifierName =
     list_ex (\<lambda>m. strict_eq (VStr (mod_name m)) modifierName) (modifiers item)"

definition getModifier :: "Item \<Rightarrow> string option \<Rightarrow> ItemModifier option" where
  "getModifier item modifierName =
     (case modifierName of
        None \<Rightarrow> None
      | Some n \<Rightarrow> List.find (\<lambda>m. mod_name m = n) (modifiers item))"



definition getSocketCount :: "Item \<Rightarrow> nat" where
  "getSocketCount item = length (sockets item)"


subsection \<open>Validation\<close>



subsection \<open>Items as dynamic values\<close>

text \<open>
  The item as the object the host language sees, for path resolution and for JSON. The
  members stand in the order in which the factories write them. A property whose value is
  \<^verbatim>\<open>undefined\<close> has no \<^verbatim>\<open>value\<close> member here: reading the member gives \<^verbatim>\<open>undefined\<close>
  either way.
\<close>

definition strs_to_val :: "string list \<Rightarrow> jsval" where
  "strs_to_val xs = VArr (map VStr xs)"

definition property_to_val :: "ItemProperty \<Rightarrow> jsval" where
  "property_to_val p =
     VObj ([(''id'', VStr (prop_id p)), (''name'', VStr (prop_name p))]
           @ (if prop_value p = VUndef then [] else [(''value'', prop_value p)])
           @ [(''type'', VStr (prop_type p))])"

definition modifier_to_val :: "ItemModifier \<Rightarrow> jsval" where
  "modifier_to_val m =
     VObj [(''id'', VStr (mod_id m)), (''name'', VStr (mod_name m)), (''tier'', VNum (tier m)),
           (''values'', VObj (mod_values m)), (''type'', VStr (mod_type m)),
           (''tags'', strs_to_val (mod_tags m))]"

definition socket_to_val :: "ItemSocket \<Rightarrow> jsval" where
  "socket_to_val s =
     VObj [(''id'', VStr (socket_id s)), (''color'', VStr (color s)),
           (''links'', strs_to_val (links s))]"

definition item_to_val :: "Item \<Rightarrow> jsval" where
  "item_to_val item =
     VObj [(''id'', VStr (item_id item)), (''name'', VStr (item_name item)),
           (''baseType'', VStr (baseType item)), (''itemLevel'', VNum (itemLevel item)),
           (''quality'', VNum (quality item)), (''isCorrupted'', VBool (isCorrupted item)),
           (''isIdentified'', VBool (isIdentified item)), (''rarity'', VStr (rarity item)),
           (''properties'', VObj (map (\<lambda>kp. (fst kp, property_to_val (snd kp))) (properties item))),
           (''modifiers'', VArr (map modifier_to_val (modifiers item))),
           (''sockets'', VArr (map socket_to_val (sockets item))),
           (''customData'', VObj (customData item)),
           (''tags'', strs_to_val (item_tags item))]"


subsection \<open>Cloning, export and import\<close>

text \<open>
  \<^verbatim>\<open>cloneItem\<close> copies the item and gives the copy a new identifier
  (\<^verbatim>\<open>draft.id = uuidv4()\<close>).
\<close>

definition cloneItem :: "Item \<Rightarrow> Env \<Rightarrow> Item \<times> Env" where
  "cloneItem item e = (let (u, e1) = uuidv4_unlike (item_id item) e in (item\<lparr>item_id := u\<rparr>, e1))"


text \<open>
  \<^verbatim>\<open>importItem\<close> parses the text and hands the parsed object to \<^verbatim>\<open>validateItem\<close> as an
  Item, unchecked. The model reads the parsed document back into the record
  (\<open>val_to_item\<close>); a document that is not the print of an item is outside the model.
\<close>

definition val_str :: "jsval \<Rightarrow> string option" where
  "val_str v = (case v of VStr s \<Rightarrow> Some s | _ \<Rightarrow> None)"

definition val_num :: "jsval \<Rightarrow> int option" where
  "val_num v = (case v of VNum n \<Rightarrow> Some n | _ \<Rightarrow> None)"


definition val_arr :: "jsval \<Rightarrow> jsval list option" where
  "val_arr v = (case v of VArr xs \<Rightarrow> Some xs | _ \<Rightarrow> None)"


definition val_strs :: "jsval \<Rightarrow> string list option" where
  "val_strs v = (case v of VArr xs \<Rightarrow> those (map val_str xs) | _ \<Rightarrow> None)"













section \<open>Condition evaluator (actionSystem)\<close>

text \<open>
  A condition follows the interface Condition of \<^verbatim>\<open>types/core\<close>; its optional members
  are options, and an absent value is \<^verbatim>\<open>undefined\<close>. The operator is a string: the
  evaluator has a default branch for every operator outside the declared union.
\<close>

datatype Condition =
  Condition (cond_id: string) (cond_type: string) (operator: string) (target: "string option")
    (cond_value: jsval) (conditions: "Condition list option") (customEvaluator: "string option")

record ConditionEvaluator =
  customEvaluators :: "string \<Rightarrow> (Condition \<Rightarrow> Item \<Rightarrow> jsval \<Rightarrow> bool) option"

definition registerEvaluator ::
  "ConditionEvaluator \<Rightarrow> string \<Rightarrow> (Condition \<Rightarrow> Item \<Rightarrow> jsval \<Rightarrow> bool) \<Rightarrow> ConditionEvaluator" where
  "registerEvaluator ev nm f = ev\<lparr>customEvaluators := (customEvaluators ev)(nm \<mapsto> f)\<rparr>"

subsection \<open>Target path resolution\<close>

definition getNestedValue :: "jsval \<Rightarrow> string list \<Rightarrow> jsval" where
  "getNestedValue obj path = foldl get_member obj path"

definition modifier_val :: "ItemModifier option \<Rightarrow> jsval" where
  "modifier_val m = (case m of None \<Rightarrow> VUndef | Some x \<Rightarrow> modifier_to_val x)"

text \<open>
  \<^verbatim>\<open>parts[1]\<close> is \<^verbatim>\<open>undefined\<close> when the path has one segment: as a property key it reads
  \<^verbatim>\<open>"undefined"\<close>, as a modifier name it matches no modifier.
\<close>

definition getTargetValue :: "string \<Rightarrow> Item \<Rightarrow> jsval" where
  "getTargetValue tg item =
     (let parts = split_dot tg in
      if hd parts = ''item'' then getNestedValue (item_to_val item) (tl parts)
      else if hd parts = ''property''
        then getPropertyValue item (if length parts > 1 then parts ! 1 else ''undefined'')
      else if hd parts = ''modifier''
        then (let modifier = getModifier item (if length parts > 1 then Some (parts ! 1) else None)
              in if length parts > 2 then getNestedValue (modifier_val modifier) (drop 2 parts)
                 else modifier_val modifier)
      else getNestedValue (item_to_val item) parts)"

subsection \<open>Operators\<close>

text \<open>
  \<^verbatim>\<open>condition.target!\<close> is an unchecked assertion: with no target, \<^verbatim>\<open>target.split\<close>
  raises the host's TypeError.
\<close>

definition evaluateEquals :: "Condition \<Rightarrow> Item \<Rightarrow> jsval \<Rightarrow> error + bool" where
  "evaluateEquals condition item ctx =
     (case target condition of
        None \<Rightarrow> Inl TypeError
      | Some tg \<Rightarrow> Inr (strict_eq (getTargetValue tg item) (cond_value condition)))"

definition evaluateGreaterThan :: "Condition \<Rightarrow> Item \<Rightarrow> jsval \<Rightarrow> error + bool" where
  "evaluateGreaterThan condition item ctx =
     (case target condition of
        None \<Rightarrow> Inl TypeError
      | Some tg \<Rightarrow>
          Inr (num_greater (to_number (getTargetValue tg item)) (to_number (cond_value condition))))"

definition evaluateLessThan :: "Condition \<Rightarrow> Item \<Rightarrow> jsval \<Rightarrow> error + bool" where
  "evaluateLessThan condition item ctx =
     (case target condition of
        None \<Rightarrow> Inl TypeError
      | Some tg \<Rightarrow>
          Inr (num_less (to_number (getTargetValue tg item)) (to_number (cond_value condition))))"

definition evaluateContains :: "Condition \<Rightarrow> Item \<Rightarrow> jsval \<Rightarrow> error + bool" where
  "evaluateContains condition item ctx =
     (case target condition of
        None \<Rightarrow> Inl TypeError
      | Some tg \<Rightarrow>
          (case getTargetValue tg item of
             VArr xs \<Rightarrow> Inr (arr_includes xs (cond_value condition))
           | v \<Rightarrow> Inr (str_includes (to_string v) (to_string (cond_value condition)))))"

definition evaluateHasModifier :: "Condition \<Rightarrow> Item \<Rightarrow> jsval \<Rightarrow> error + bool" where
  "evaluateHasModifier condition item ctx = Inr (hasModifier item (cond_value condition))"

definition evaluateHasProperty :: "Condition \<Rightarrow> Item \<Rightarrow> jsval \<Rightarrow> error + bool" where
  "evaluateHasProperty condition item ctx = Inr (hasProperty item (cond_value condition))"

text \<open>
  \<^verbatim>\<open>xs.every(f)\<close> and \<^verbatim>\<open>xs.some(f)\<close> where \<open>f\<close> may raise: the results are read from
  the left, the first error is raised, and nothing is read after the first false
  (\<^verbatim>\<open>every\<close>) or the first true (\<^verbatim>\<open>some\<close>).
\<close>

fun every_result :: "(error + bool) list \<Rightarrow> error + bool" where
  "every_result [] = Inr True"
| "every_result (r # rs) =
     (case r of Inl e \<Rightarrow> Inl e | Inr b \<Rightarrow> if b then every_result rs else Inr False)"

fun some_result :: "(error + bool) list \<Rightarrow> error + bool" where
  "some_result [] = Inr False"
| "some_result (r # rs) =
     (case r of Inl e \<Rightarrow> Inl e | Inr b \<Rightarrow> if b then Inr True else some_result rs)"

definition not_result :: "error + bool \<Rightarrow> error + bool" where
  "not_result r = (case r of Inl e \<Rightarrow> Inl e | Inr b \<Rightarrow> Inr (\<not> b))"

fun evaluate :: "ConditionEvaluator \<Rightarrow> Condition \<Rightarrow> Item \<Rightarrow> jsval \<Rightarrow> error + bool" where
  "evaluate ev (Condition cid cty opr tg v cs ce) item ctx =
     (if opr = ''equals'' then evaluateEquals (Condition cid cty opr tg v cs ce) item ctx
      else if opr = ''notEquals''
        then not_result (evaluateEquals (Condition cid cty opr tg v cs ce) item ctx)
      else if opr = ''greaterThan''
        then evaluateGreaterThan (Condition cid cty opr tg v cs ce) item ctx
      else if opr = ''lessThan'' then evaluateLessThan (Condition cid cty opr tg v cs ce) item ctx
      else if opr = ''contains'' then evaluateContains (Condition cid cty opr tg v cs ce) item ctx
      else if opr = ''hasModifier''
        then evaluateHasModifier (Condition cid cty opr tg v cs ce) item ctx
      else if opr = ''hasProperty''
        then evaluateHasProperty (Condition cid cty opr tg v cs ce) item ctx
      else if opr = ''and''
        then (case cs of
                None \<Rightarrow> Inr True
              | Some l \<Rightarrow> every_result (map (\<lambda>c. evaluate ev c item ctx) l))
      else if opr = ''or''
        then (case cs of
                None \<Rightarrow> Inr False
              | Some l \<Rightarrow> some_result (map (\<lambda>c. evaluate ev c item ctx) l))
      else if opr = ''not''
        then (case cs of
                None \<Rightarrow> Inr True
              | Some [] \<Rightarrow> Inr True
              | Some (c # rest) \<Rightarrow> not_result (evaluate ev c item ctx))
      else (case ce of
              None \<Rightarrow> Inl (UnknownOperator opr)
            | Some nm \<Rightarrow>
                (if nm = [] then Inl (UnknownOperator opr)
                 else (case customEvaluators ev nm of
                         None \<Rightarrow> Inl (UnknownOperator opr)
                       | Some f \<Rightarrow> Inr (f (Condition cid cty opr tg v cs ce) item ctx)))))"

subsection \<open>Built-in custom evaluators\<close>

text \<open>\<^verbatim>\<open>n >= v\<close> with a number on the left: \<open>v\<close> is read as a number.\<close>

definition num_ge :: "jsnum \<Rightarrow> jsnum \<Rightarrow> bool" where
  "num_ge a b = (case a of NaN \<Rightarrow> False | Num x \<Rightarrow> (case b of NaN \<Rightarrow> False | Num y \<Rightarrow> x \<ge> y))"

definition evaluateCorruptionCheck :: "Condition \<Rightarrow> Item \<Rightarrow> jsval \<Rightarrow> bool" where
  "evaluateCorruptionCheck condition item ctx =
     strict_eq (VBool (isCorrupted item)) (cond_value condition)"

definition evaluateSocketCheck :: "Condition \<Rightarrow> Item \<Rightarrow> jsval \<Rightarrow> bool" where
  "evaluateSocketCheck condition item ctx =
     (let socketCount = length (sockets item)
      in num_ge (Num (int socketCount)) (to_number (cond_value condition)))"

definition evaluateModifierTierCheck :: "Condition \<Rightarrow> Item \<Rightarrow> jsval \<Rightarrow> bool" where
  "evaluateModifierTierCheck condition item ctx =
     (case getModifier item (target condition) of
        None \<Rightarrow> False
      | Some modifier \<Rightarrow> num_ge (Num (tier modifier)) (to_number (cond_value condition)))"

definition new_ConditionEvaluator :: ConditionEvaluator where
  "new_ConditionEvaluator =
     registerEvaluator
       (registerEvaluator
          (registerEvaluator \<lparr>customEvaluators = Map.empty\<rparr>
             ''corruption_check'' evaluateCorruptionCheck)
          ''socket_check'' evaluateSocketCheck)
       ''modifier_tier_check'' evaluateModifierTierCheck"


section \<open>Action executor (actionSystem)\<close>

text \<open>
  ItemChange, ActionOutcome and CraftAction follow the interfaces of \<^verbatim>\<open>types/core\<close>. The
  requirements of an action are informational and kept as a dynamic value.
\<close>

record ItemChange =
  change_type :: string
  change_target :: "string option"
  change_value :: jsval
  modifierId :: "string option"
  socketId :: "string option"
  change_handler :: "string option"

record ActionOutcome =
  outcome_id :: string
  probability :: jsdouble
  outcome_description :: string
  changes :: "ItemChange list"
  outcome_conditions :: "Condition list option"

record CraftAction =
  action_id :: string
  action_name :: string
  action_description :: string
  category :: string
  iconUrl :: "string option"
  preconditions :: "Condition list"
  requirements :: jsval
  outcomes :: "ActionOutcome list"
  customHandler :: "string option"
  action_tags :: "string list"
  isEnabled :: bool

text \<open>
  A custom handler is a function of the item, the action and the context; it may draw
  from the environment. The table of handlers is read with \<open>member_of\<close>.
\<close>

type_synonym handler = "Item \<Rightarrow> CraftAction \<Rightarrow> jsval \<Rightarrow> Env \<Rightarrow> Item \<times> Env"

record ActionExecutor =
  conditionEvaluator :: ConditionEvaluator
  customHandlers :: "string \<Rightarrow> handler option"

definition registerHandler :: "ActionExecutor \<Rightarrow> string \<Rightarrow> handler \<Rightarrow> ActionExecutor" where
  "registerHandler ex nm h = ex\<lparr>customHandlers := (customHandlers ex)(nm \<mapsto> h)\<rparr>"

definition canExecuteAction :: "ActionExecutor \<Rightarrow> CraftAction \<Rightarrow> Item \<Rightarrow> jsval \<Rightarrow> error + bool" where
  "canExecuteAction ex action item ctx =
     every_result (map (\<lambda>condition. evaluate (conditionEvaluator ex) condition item ctx)
                       (preconditions action))"

text \<open>An optional string that is present and not empty (\<^verbatim>\<open>if (s)\<close>).\<close>

definition present :: "string option \<Rightarrow> bool" where
  "present s = (case s of None \<Rightarrow> False | Some x \<Rightarrow> x \<noteq> [])"

subsection \<open>Outcome selection\<close>

text \<open>
  The walk of \<^verbatim>\<open>selectOutcomeByProbability\<close>: the first outcome whose running total
  reaches the draw, or nothing when the loop falls through.
\<close>

fun walk_outcomes :: "jsdouble \<Rightarrow> jsdouble \<Rightarrow> ActionOutcome list \<Rightarrow> ActionOutcome option" where
  "walk_outcomes random accumulator [] = None"
| "walk_outcomes random accumulator (outcome # rest) =
     (if js_le random (js_add accumulator (probability outcome)) then Some outcome
      else walk_outcomes random (js_add accumulator (probability outcome)) rest)"

definition totalProbability :: "ActionOutcome list \<Rightarrow> jsdouble" where
  "totalProbability os = foldl (\<lambda>sum outcome. js_add sum (probability outcome)) (Finite 0) os"

text \<open>
  The selection given the value \<open>u\<close> that \<^verbatim>\<open>Math.random()\<close> returns. The result is
  \<open>None\<close> where the source returns \<^verbatim>\<open>undefined\<close> (\<^verbatim>\<open>outcomes[0]\<close> of an empty list).
\<close>

definition select_with :: "rat \<Rightarrow> ActionOutcome list \<Rightarrow> ActionOutcome option" where
  "select_with u os =
     (case walk_outcomes (js_mul (Finite u) (totalProbability os)) (Finite 0) os of
        Some outcome \<Rightarrow> Some outcome
      | None \<Rightarrow> (if os = [] then None else Some (last os)))"

definition selectOutcomeByProbability :: "ActionOutcome list \<Rightarrow> Env \<Rightarrow> ActionOutcome option \<times> Env" where
  "selectOutcomeByProbability os e =
     (if js_le (totalProbability os) (Finite 0)
      then ((case os of [] \<Rightarrow> None | first # rest \<Rightarrow> Some first), e)
      else (let (u, e1) = Math_random e in (select_with u os, e1)))"

subsection \<open>Applying changes\<close>

text \<open>
  A change's value is dynamic. \<^verbatim>\<open>change.value?.tier || 1\<close>, \<^verbatim>\<open>change.value?.color ||
  'white'\<close> and \<^verbatim>\<open>change.value.socketIds\<close> flow into fields declared number, string and
  string array; the model reads them when they have that type (or are falsy, for the two
  defaults) and is \<open>Unmodelled\<close> otherwise, as it is for a modifier made from an absent
  target (\<^verbatim>\<open>change.target!\<close>). The warnings of the \<^verbatim>\<open>custom\<close> and the default branch go to
  the console and change nothing.
\<close>

definition change_tier :: "jsval \<Rightarrow> int option" where
  "change_tier v =
     (let t = get_member v ''tier'' in if \<not> truthy t then Some 1 else val_num t)"

definition change_color :: "jsval \<Rightarrow> string option" where
  "change_color v =
     (let c = get_member v ''color'' in if \<not> truthy c then Some ''white'' else val_str c)"

definition applyChange :: "Item \<Rightarrow> ItemChange \<Rightarrow> Env \<Rightarrow> error + Item \<times> Env" where
  "applyChange modifiedItem change e =
     (if change_type change = ''addModifier'' then
        (if present (modifierId change) then
           (case (change_target change, change_tier (change_value change)) of
              (Some tg, Some t) \<Rightarrow>
                (let (modifier, e1) = createModifier tg t ''prefix'' [] [] e
                 in Inr (addModifier modifiedItem modifier, e1))
            | _ \<Rightarrow> Inl Unmodelled)
         else Inr (modifiedItem, e))
      else if change_type change = ''removeModifier'' then
        (if present (modifierId change)
         then Inr (removeModifier modifiedItem (the (modifierId change)), e)
         else Inr (modifiedItem, e))
      else if change_type change = ''modifyProperty'' then
        (if present (change_target change)
         then Inr (updateProperty modifiedItem (the (change_target change)) (change_value change), e)
         else Inr (modifiedItem, e))
      else if change_type change = ''addSocket'' then
        (case change_color (change_value change) of
           None \<Rightarrow> Inl Unmodelled
         | Some c \<Rightarrow> (let (newSocket, e1) = createSocket c [] e
                      in Inr (addSocket modifiedItem newSocket, e1)))
      else if change_type change = ''removeSocket'' then
        (if present (socketId change)
         then Inr (removeSocket modifiedItem (the (socketId change)), e)
         else Inr (modifiedItem, e))
      else if change_type change = ''linkSockets'' then
        (if truthy (get_member (change_value change) ''socketIds'') then
           (case val_strs (get_member (change_value change) ''socketIds'') of
              None \<Rightarrow> Inl Unmodelled
            | Some ids \<Rightarrow> Inr (linkSockets modifiedItem ids, e))
         else Inr (modifiedItem, e))
      else if change_type change = ''corrupt'' then Inr (corruptItem modifiedItem, e)
      else if change_type change = ''custom'' then Inr (modifiedItem, e)
      else Inr (modifiedItem, e))"

fun applyChanges :: "Item \<Rightarrow> ItemChange list \<Rightarrow> Env \<Rightarrow> error + Item \<times> Env" where
  "applyChanges modifiedItem [] e = Inr (modifiedItem, e)"
| "applyChanges modifiedItem (change # rest) e =
     (case applyChange modifiedItem change e of
        Inl err \<Rightarrow> Inl err
      | Inr (item1, e1) \<Rightarrow> applyChanges item1 rest e1)"

subsection \<open>Executing an action\<close>

text \<open>\<^verbatim>\<open>xs.filter(f)\<close> where \<open>f\<close> may raise.\<close>

fun filter_result :: "('a \<Rightarrow> error + bool) \<Rightarrow> 'a list \<Rightarrow> error + 'a list" where
  "filter_result f [] = Inr []"
| "filter_result f (x # xs) =
     (case f x of
        Inl e \<Rightarrow> Inl e
      | Inr b \<Rightarrow> (case filter_result f xs of
                    Inl e \<Rightarrow> Inl e
                  | Inr ys \<Rightarrow> Inr (if b then x # ys else ys)))"

definition outcome_valid :: "ActionExecutor \<Rightarrow> Item \<Rightarrow> jsval \<Rightarrow> ActionOutcome \<Rightarrow> error + bool" where
  "outcome_valid ex item ctx outcome =
     (case outcome_conditions outcome of
        None \<Rightarrow> Inr True
      | Some cs \<Rightarrow>
          every_result (map (\<lambda>condition. evaluate (conditionEvaluator ex) condition item ctx) cs))"

text \<open>
  What \<^verbatim>\<open>action.customHandler && this.customHandlers[action.customHandler]\<close> finds: nothing
  when the action names no handler or the table has nothing under the name.
\<close>

definition action_handler :: "ActionExecutor \<Rightarrow> CraftAction \<Rightarrow> handler member" where
  "action_handler ex action =
     (if present (customHandler action)
      then member_of (customHandlers ex) (the (customHandler action))
      else Absent)"

text \<open>
  The result is the new item and the reported outcome. On the custom path the outcome is
  \<^verbatim>\<open>action.outcomes[0]\<close>, which is \<^verbatim>\<open>undefined\<close> (\<open>None\<close>) for an action without outcomes.
  When the name is that of an inherited member, the engine takes the custom path with a
  function that is no handler and goes on with what it returns in the place of the item
  (a string, a boolean, ...), or fails where the member is not a function: the model stops
  with \<open>Unmodelled\<close>.
\<close>

definition executeAction ::
  "ActionExecutor \<Rightarrow> CraftAction \<Rightarrow> Item \<Rightarrow> jsval \<Rightarrow> Env
     \<Rightarrow> error + (Item \<times> ActionOutcome option) \<times> Env" where
  "executeAction ex action item ctx e =
     (case canExecuteAction ex action item ctx of
        Inl err \<Rightarrow> Inl err
      | Inr ok \<Rightarrow>
          if \<not> ok then Inl (PreconditionsNotMet (action_name action))
          else (case action_handler ex action of
                  Own h \<Rightarrow>
                    (let (modifiedItem, e1) = h item action ctx e
                     in Inr ((modifiedItem,
                              (case outcomes action of [] \<Rightarrow> None | first # rest \<Rightarrow> Some first)), e1))
                | Inherited \<Rightarrow> Inl Unmodelled
                | Untracked \<Rightarrow> Inl Unmodelled
                | Absent \<Rightarrow>
                    (case filter_result (outcome_valid ex item ctx) (outcomes action) of
                       Inl err \<Rightarrow> Inl err
                     | Inr validOutcomes \<Rightarrow>
                         if length validOutcomes = 0 then Inl (NoValidOutcomes (action_name action))
                         else (let (sel, e1) = selectOutcomeByProbability validOutcomes e in
                               (case sel of
                                  None \<Rightarrow> Inl TypeError
                                | Some selectedOutcome \<Rightarrow>
                                    (case applyChanges item (changes selectedOutcome) e1 of
                                       Inl err \<Rightarrow> Inl err
                                     | Inr (modifiedItem, e2) \<Rightarrow>
                                         Inr ((modifiedItem, Some selectedOutcome), e2)))))))"


subsection \<open>Built-in handlers\<close>

text \<open>
  \<^verbatim>\<open>for (let i = 0; i < n; i++)\<close> adding one modifier named \<open>label (i + 1)\<close> per round.
\<close>

definition add_numbered :: "string \<Rightarrow> string \<Rightarrow> nat \<Rightarrow> Item \<times> Env \<Rightarrow> Item \<times> Env" where
  "add_numbered label ty n start =
     fold (\<lambda>i (it, e). (let (modifier, e1) = createModifier (label @ show_nat (i + 1)) 1 ty [] [] e
                         in (addModifier it modifier, e1)))
          [0..<n] start"

definition handleChaosOrb :: handler where
  "handleChaosOrb item action ctx e =
     (let modifiedItem = item\<lparr>modifiers := []\<rparr>;
          (r1, e1) = Math_random e;
          numPrefixes = floor_scaled r1 4;
          (r2, e2) = Math_random e1;
          numSuffixes = floor_scaled r2 4
      in add_numbered ''Random Suffix '' ''suffix'' (nat numSuffixes)
           (add_numbered ''Random Prefix '' ''prefix'' (nat numPrefixes) (modifiedItem, e2)))"

definition handleAlchemyOrb :: handler where
  "handleAlchemyOrb item action ctx e =
     (let modifiedItem = item\<lparr>rarity := ''rare'', modifiers := []\<rparr>;
          (r1, e1) = Math_random e;
          numModifiers = 4 + floor_scaled r1 3;
          (r2, e2) = Math_random e1;
          numPrefixes = min 3 (numModifiers div 2 + floor_scaled r2 2);
          numSuffixes = min 3 (numModifiers - numPrefixes)
      in add_numbered ''Alch Suffix '' ''suffix'' (nat numSuffixes)
           (add_numbered ''Alch Prefix '' ''prefix'' (nat numPrefixes) (modifiedItem, e2)))"

definition handleRegalOrb :: handler where
  "handleRegalOrb item action ctx e =
     (let modifiedItem = item\<lparr>rarity := ''rare''\<rparr>;
          (r, e1) = Math_random e;
          modifierType = (if r < 1 / 2 then ''prefix'' else ''suffix'');
          (modifier, e2) = createModifier (''Regal '' @ modifierType) 1 modifierType [] [] e1
      in (addModifier modifiedItem modifier, e2))"

definition handleExaltedOrb :: handler where
  "handleExaltedOrb item action ctx e =
     (let (r, e1) = Math_random e;
          modifierType = (if r < 1 / 2 then ''prefix'' else ''suffix'');
          (modifier, e2) = createModifier (''Exalted '' @ modifierType) 1 modifierType [] [] e1
      in (addModifier item modifier, e2))"

fun reroll_tiers :: "ItemModifier list \<Rightarrow> Env \<Rightarrow> ItemModifier list \<times> Env" where
  "reroll_tiers [] e = ([], e)"
| "reroll_tiers (m # ms) e =
     (let (r, e1) = Math_random e;
          m1 = m\<lparr>tier := max 1 (tier m + floor_scaled r 3 - 1)\<rparr>;
          (ms1, e2) = reroll_tiers ms e1
      in (m1 # ms1, e2))"

definition handleDivineOrb :: handler where
  "handleDivineOrb item action ctx e =
     (let (ms, e1) = reroll_tiers (modifiers item) e in (item\<lparr>modifiers := ms\<rparr>, e1))"

definition new_ActionExecutor :: "ConditionEvaluator \<Rightarrow> ActionExecutor" where
  "new_ActionExecutor ce =
     registerHandler
       (registerHandler
          (registerHandler
             (registerHandler
                (registerHandler \<lparr>conditionEvaluator = ce, customHandlers = Map.empty\<rparr>
                   ''chaos_orb'' handleChaosOrb)
                ''alchemy_orb'' handleAlchemyOrb)
             ''regal_orb'' handleRegalOrb)
          ''exalted_orb'' handleExaltedOrb)
       ''divine_orb'' handleDivineOrb"

section \<open>Action registry (actionSystem)\<close>

text \<open>
  The registry keeps its actions by id, in registration order, and owns one condition
  evaluator and one action executor. Its two pass-through operations carry the prefix
  \<open>registry\<close> here, since the executor's operations have the same names. \<^verbatim>\<open>getAction\<close>
  returns what the read \<^verbatim>\<open>this.actions[id]\<close> finds. The pass-through operations test it
  with \<^verbatim>\<open>!action\<close> and hand it to the executor; an inherited member is not \<^verbatim>\<open>undefined\<close>
  and has no \<^verbatim>\<open>preconditions\<close>, so the executor's \<^verbatim>\<open>action.preconditions.every\<close> raises a
  TypeError.
\<close>

record ActionRegistryManager =
  actions :: "(string \<times> CraftAction) list"
  registry_evaluator :: ConditionEvaluator
  actionExecutor :: ActionExecutor

definition registerAction :: "ActionRegistryManager \<Rightarrow> CraftAction \<Rightarrow> ActionRegistryManager" where
  "registerAction m action = m\<lparr>actions := AList.update (action_id action) action (actions m)\<rparr>"

definition getAction :: "ActionRegistryManager \<Rightarrow> string \<Rightarrow> CraftAction member" where
  "getAction m i = member_of (map_of (actions m)) i"

text \<open>
  \<^verbatim>\<open>Object.values\<close> lists the entries, not the prototype. (It lists entries whose keys are
  decimal indices first; the model keeps the registration order for all keys.)
\<close>

definition getActionsByCategory :: "ActionRegistryManager \<Rightarrow> string \<Rightarrow> CraftAction list" where
  "getActionsByCategory m cat =
     filter (\<lambda>action. category action = cat)
       (map snd (filter (\<lambda>entry. fst entry \<noteq> ''__proto__'') (actions m)))"

definition registry_canExecuteAction ::
  "ActionRegistryManager \<Rightarrow> string \<Rightarrow> Item \<Rightarrow> jsval \<Rightarrow> error + bool" where
  "registry_canExecuteAction m actionId item ctx =
     (case getAction m actionId of
        Absent \<Rightarrow> Inr False
      | Inherited \<Rightarrow> Inl TypeError
      | Untracked \<Rightarrow> Inl Unmodelled
      | Own action \<Rightarrow> canExecuteAction (actionExecutor m) action item ctx)"

definition registry_executeAction ::
  "ActionRegistryManager \<Rightarrow> string \<Rightarrow> Item \<Rightarrow> jsval \<Rightarrow> Env
     \<Rightarrow> error + (Item \<times> ActionOutcome option) \<times> Env" where
  "registry_executeAction m actionId item ctx e =
     (case getAction m actionId of
        Absent \<Rightarrow> Inl (ActionNotFound actionId)
      | Inherited \<Rightarrow> Inl TypeError
      | Untracked \<Rightarrow> Inl Unmodelled
      | Own action \<Rightarrow> executeAction (actionExecutor m) action item ctx e)"

definition property_equals :: "string \<Rightarrow> string \<Rightarrow> jsval \<Rightarrow> Condition" where
  "property_equals i tg v = Condition i ''property'' ''equals'' (Some tg) v None None"

definition bare_change :: "string \<Rightarrow> ItemChange" where
  "bare_change ty =
     \<lparr>change_type = ty, change_target = None, change_value = VUndef, modifierId = None,
      socketId = None, change_handler = None\<rparr>"

definition initializeDefaultActions :: "ActionRegistryManager \<Rightarrow> Env \<Rightarrow> ActionRegistryManager \<times> Env" where
  "initializeDefaultActions m e =
     (let (u1, e1) = uuidv4 e; (u2, e2) = uuidv4 e1; (u3, e3) = uuidv4 e2;
          chaos = \<lparr>action_id = ''chaos_orb'', action_name = ''Chaos Orb'',
                   action_description = ''Rerolls all modifiers on a rare item'',
                   category = ''currency'', iconUrl = None,
                   preconditions = [property_equals u1 ''rarity'' (VStr ''rare''),
                                    property_equals u2 ''isCorrupted'' (VBool False)],
                   requirements = VObj [(''currency'', VObj [(''Chaos Orb'', VNum 1)])],
                   outcomes = [\<lparr>outcome_id = u3, probability = Finite 1,
                                outcome_description = ''Rerolls all modifiers'',
                                changes = [bare_change ''reroll''], outcome_conditions = None\<rparr>],
                   customHandler = Some ''chaos_orb'', action_tags = [''orb'', ''reroll''],
                   isEnabled = True\<rparr>;
          m1 = registerAction m chaos;
          (u4, e4) = uuidv4 e3; (u5, e5) = uuidv4 e4; (u6, e6) = uuidv4 e5;
          alchemy = \<lparr>action_id = ''alchemy_orb'', action_name = ''Alchemy Orb'',
                     action_description = ''Upgrades a normal item to rare with random modifiers'',
                     category = ''currency'', iconUrl = None,
                     preconditions = [property_equals u4 ''rarity'' (VStr ''normal''),
                                      property_equals u5 ''isCorrupted'' (VBool False)],
                     requirements = VObj [(''currency'', VObj [(''Alchemy Orb'', VNum 1)])],
                     outcomes = [\<lparr>outcome_id = u6, probability = Finite 1,
                                  outcome_description = ''Upgrades to rare with 4-6 modifiers'',
                                  changes = [(bare_change ''modifyProperty'')
                                               \<lparr>change_target := Some ''rarity'',
                                                change_value := VStr ''rare''\<rparr>],
                                  outcome_conditions = None\<rparr>],
                     customHandler = Some ''alchemy_orb'', action_tags = [''orb'', ''upgrade''],
                     isEnabled = True\<rparr>
      in (registerAction m1 alchemy, e6))"

definition new_ActionRegistryManager :: "Env \<Rightarrow> ActionRegistryManager \<times> Env" where
  "new_ActionRegistryManager e =
     (let ce = new_ConditionEvaluator
      in initializeDefaultActions
           \<lparr>actions = [], registry_evaluator = ce, actionExecutor = new_ActionExecutor ce\<rparr> e)"


section \<open>Guide step executor (guideSystem)\<close>

text \<open>
  The steps follow the interfaces LinearStep, ConditionalStep, BranchStep and LoopStep of
  \<^verbatim>\<open>types/core\<close>. The members whose presence \<^verbatim>\<open>validateStep\<close> checks (the action id, the
  condition, the two sub-steps, the branches, the steps of a loop) are options: a guide read
  from JSON may lack them. A branch is its condition, its steps and its label.
  \<open>UnknownStep\<close> is a step object whose \<^verbatim>\<open>type\<close> is none of the four.
\<close>

datatype GuideStep =
    LinearStep (step_id: string) (actionId: "string option") (step_description: string)
      (step_notes: "string option")
  | ConditionalStep (step_id: string) (step_condition: "Condition option")
      (trueStep: "GuideStep option") (falseStep: "GuideStep option") (step_description: string)
  | BranchStep (step_id: string) (branches: "(Condition \<times> GuideStep list \<times> string) list option")
      (step_description: string)
  | LoopStep (step_id: string) (step_condition: "Condition option")
      (loop_steps: "GuideStep list option") (maxIterations: "int option") (step_description: string)
  | UnknownStep (step_kind: string) (step_id: string)

record GuideStepResult =
  success :: bool
  result_item :: Item
  message :: string
  nextStepIndex :: "int option"
  branchPath :: "string option"
  shouldLoop :: "bool option"

record GuideExecutionOptions =
  maxSteps :: "int option"
  maxLoopIterations :: "int option"
  debugMode :: "bool option"

record HistoryEntry =
  entry_stepId :: string
  itemBefore :: Item
  itemAfter :: Item
  timestamp :: string

record GuideExecutionState =
  guideId :: string
  currentItem :: Item
  currentStepIndex :: int
  stepHistory :: "HistoryEntry list"
  variables :: "(string \<times> jsval) list"

record GuideExecutor =
  actionRegistry :: ActionRegistryManager
  executor_evaluator :: ConditionEvaluator

definition new_GuideExecutor :: "ActionRegistryManager \<Rightarrow> GuideExecutor" where
  "new_GuideExecutor registry =
     \<lparr>actionRegistry = registry, executor_evaluator = new_ConditionEvaluator\<rparr>"

text \<open>
  The message of an error. The text of the host's own TypeError and SyntaxError depends on
  the engine that runs the code; the model writes their names.
\<close>

definition error_message :: "error \<Rightarrow> string" where
  "error_message err =
     (case err of
        UnknownOperator opr \<Rightarrow> ''Unknown condition operator: '' @ opr
      | PreconditionsNotMet nm \<Rightarrow> ''Cannot execute action '' @ nm @ '': preconditions not met''
      | NoValidOutcomes nm \<Rightarrow> ''No valid outcomes for action '' @ nm
      | ActionNotFound i \<Rightarrow> ''Action not found: '' @ i
      | GuideNotFound i \<Rightarrow> ''Guide not found: '' @ i
      | InvalidItem errs \<Rightarrow> ''Invalid item: '' @ join '', '' errs
      | InvalidGuide errs \<Rightarrow> ''Invalid guide: '' @ join '', '' errs
      | TypeError \<Rightarrow> ''TypeError''
      | SyntaxError \<Rightarrow> ''SyntaxError''
      | Unmodelled \<Rightarrow> ''Unmodelled'')"

definition plain_result :: "bool \<Rightarrow> Item \<Rightarrow> string \<Rightarrow> GuideStepResult" where
  "plain_result ok item msg =
     \<lparr>success = ok, result_item = item, message = msg, nextStepIndex = None, branchPath = None,
      shouldLoop = None\<rparr>"

definition logStepExecution ::
  "GuideExecutionState \<Rightarrow> string \<Rightarrow> Item \<Rightarrow> Item \<Rightarrow> Env \<Rightarrow> GuideExecutionState \<times> Env" where
  "logStepExecution st stepId before after e =
     (let (b, e1) = cloneItem before e;
          (a, e2) = cloneItem after e1;
          (t, e3) = new_Date e2
      in (st\<lparr>stepHistory := stepHistory st @
                [\<lparr>entry_stepId = stepId, itemBefore = b, itemAfter = a, timestamp = t\<rparr>]\<rparr>, e3))"

text \<open>
  The \<^verbatim>\<open>try\<close> block of a linear step: an error raised in it becomes a failed result that
  carries the error's message (\<open>caught\<close>). An absent action id reads \<^verbatim>\<open>undefined\<close>, as a
  key and in the messages. Reading \<^verbatim>\<open>result.outcome.description\<close> raises a TypeError when
  the action has no outcome to report, after the step was logged.
\<close>

definition caught ::
  "error \<Rightarrow> Item \<Rightarrow> GuideExecutionState \<Rightarrow> Env \<Rightarrow> error + GuideStepResult \<times> GuideExecutionState \<times> Env" where
  "caught err item st e =
     (if err = Unmodelled then Inl Unmodelled
      else Inr (plain_result False item (''Error executing step: '' @ error_message err), st, e))"

definition executeLinearStep ::
  "GuideExecutor \<Rightarrow> string \<Rightarrow> string option \<Rightarrow> Item \<Rightarrow> GuideExecutionState \<Rightarrow> Env
     \<Rightarrow> error + GuideStepResult \<times> GuideExecutionState \<times> Env" where
  "executeLinearStep ge stepId aid item st e =
     (let actionKey = (case aid of None \<Rightarrow> ''undefined'' | Some a \<Rightarrow> a) in
      case registry_canExecuteAction (actionRegistry ge) actionKey item VUndef of
        Inl err \<Rightarrow> caught err item st e
      | Inr ok \<Rightarrow>
          if \<not> ok
          then Inr (plain_result False item
                      (''Cannot execute action: preconditions not met for '' @ actionKey), st, e)
          else (case registry_executeAction (actionRegistry ge) actionKey item VUndef e of
                  Inl err \<Rightarrow> caught err item st e
                | Inr ((newItem, outcome), e1) \<Rightarrow>
                    (let (st1, e2) = logStepExecution st stepId item newItem e1 in
                     case outcome of
                       None \<Rightarrow> caught TypeError item st1 e2
                     | Some oc \<Rightarrow>
                         Inr (plain_result True newItem
                                (''Successfully executed '' @ actionKey @ '': '' @ outcome_description oc),
                              st1, e2))))"

text \<open>\<^verbatim>\<open>step.maxIterations || options.maxLoopIterations || 10\<close>.\<close>

definition or_number :: "int option \<Rightarrow> int \<Rightarrow> int" where
  "or_number a b = (case a of None \<Rightarrow> b | Some n \<Rightarrow> if n = 0 then b else n)"

definition loop_limit :: "int option \<Rightarrow> GuideExecutionOptions \<Rightarrow> int" where
  "loop_limit m opts = or_number m (or_number (maxLoopIterations opts) 10)"

text \<open>
  The interpreter. \<open>run_steps\<close> is the inner \<^verbatim>\<open>for\<close> loop of a branch and of a loop
  iteration: it stops at the first failed sub-step and returns its result (\<open>Inl\<close>), or
  returns the running item and the last result (\<open>Inr\<close>). \<open>find_branch\<close> is the scan of
  the branches. \<open>loop_while\<close> is the \<^verbatim>\<open>while\<close> loop of a loop step, from the iteration
  count it is given. The guide executor evaluates conditions without a context.
\<close>

function (sequential)
  executeStep :: "GuideExecutor \<Rightarrow> GuideStep \<Rightarrow> Item \<Rightarrow> GuideExecutionState \<Rightarrow> GuideExecutionOptions
     \<Rightarrow> Env \<Rightarrow> error + GuideStepResult \<times> GuideExecutionState \<times> Env"
and run_steps :: "GuideExecutor \<Rightarrow> GuideStep list \<Rightarrow> Item \<Rightarrow> GuideStepResult option
     \<Rightarrow> GuideExecutionState \<Rightarrow> GuideExecutionOptions \<Rightarrow> Env
     \<Rightarrow> error + (GuideStepResult + Item \<times> GuideStepResult option) \<times> GuideExecutionState \<times> Env"
and find_branch :: "GuideExecutor \<Rightarrow> (Condition \<times> GuideStep list \<times> string) list \<Rightarrow> Item
     \<Rightarrow> GuideExecutionState \<Rightarrow> GuideExecutionOptions \<Rightarrow> Env
     \<Rightarrow> error + GuideStepResult \<times> GuideExecutionState \<times> Env"
and loop_while :: "GuideExecutor \<Rightarrow> Condition option \<Rightarrow> GuideStep list option \<Rightarrow> int \<Rightarrow> nat \<Rightarrow> Item
     \<Rightarrow> GuideExecutionState \<Rightarrow> GuideExecutionOptions \<Rightarrow> Env
     \<Rightarrow> error + GuideStepResult \<times> GuideExecutionState \<times> Env"
where
  "executeStep ge (LinearStep sid aid d n) item st opts e = executeLinearStep ge sid aid item st e"
| "executeStep ge (ConditionalStep sid c ts fs d) item st opts e =
     (case c of
        None \<Rightarrow> Inl TypeError
      | Some condition \<Rightarrow>
          (case evaluate (executor_evaluator ge) condition item VUndef of
             Inl err \<Rightarrow> Inl err
           | Inr conditionMet \<Rightarrow>
               (case (if conditionMet then ts else fs) of
                  None \<Rightarrow> Inl TypeError
                | Some nextStep \<Rightarrow>
                    (case executeStep ge nextStep item st opts e of
                       Inl err \<Rightarrow> Inl err
                     | Inr (result, st1, e1) \<Rightarrow>
                         Inr (result\<lparr>message := ''Condition '' @ (if conditionMet then ''met'' else ''not met'')
                                                  @ '': '' @ message result,
                                     branchPath := Some (if conditionMet then ''true'' else ''false'')\<rparr>,
                              st1, e1)))))"
| "executeStep ge (BranchStep sid bs d) item st opts e =
     (case bs of
        None \<Rightarrow> Inl TypeError
      | Some branchList \<Rightarrow> find_branch ge branchList item st opts e)"
| "executeStep ge (LoopStep sid c body m d) item st opts e =
     loop_while ge c body (loop_limit m opts) 0 item st opts e"
| "executeStep ge (UnknownStep kind sid) item st opts e =
     Inr (plain_result False item (''Unknown step type: '' @ kind), st, e)"
| "run_steps ge [] running lastResult st opts e = Inr (Inr (running, lastResult), st, e)"
| "run_steps ge (subStep # rest) running lastResult st opts e =
     (case executeStep ge subStep running st opts e of
        Inl err \<Rightarrow> Inl err
      | Inr (stepResult, st1, e1) \<Rightarrow>
          if \<not> success stepResult then Inr (Inl stepResult, st1, e1)
          else run_steps ge rest (result_item stepResult) (Some stepResult) st1 opts e1)"
| "find_branch ge [] item st opts e =
     Inr (plain_result False item ''No matching branch found'', st, e)"
| "find_branch ge ((condition, branchSteps, label) # rest) item st opts e =
     (case evaluate (executor_evaluator ge) condition item VUndef of
        Inl err \<Rightarrow> Inl err
      | Inr matches \<Rightarrow>
          if matches then
            (case run_steps ge branchSteps item None st opts e of
               Inl err \<Rightarrow> Inl err
             | Inr (Inl stepResult, st1, e1) \<Rightarrow> Inr (stepResult\<lparr>branchPath := Some label\<rparr>, st1, e1)
             | Inr (Inr (running, lastResult), st1, e1) \<Rightarrow>
                 Inr ((plain_result True running
                         (''Executed branch '' @ [CHR 0x27] @ label @ [CHR 0x27] @ '': ''
                          @ (case lastResult of
                               None \<Rightarrow> ''completed''
                             | Some r \<Rightarrow> if message r = [] then ''completed'' else message r)))
                      \<lparr>branchPath := Some label\<rparr>, st1, e1))
          else find_branch ge rest item st opts e)"
| "loop_while ge c body limit iterations running st opts e =
     (case c of
        None \<Rightarrow> Inl TypeError
      | Some condition \<Rightarrow>
          (case evaluate (executor_evaluator ge) condition running VUndef of
             Inl err \<Rightarrow> Inl err
           | Inr holds \<Rightarrow>
               if holds \<and> int iterations < limit then
                 (case body of
                    None \<Rightarrow> Inl TypeError
                  | Some loopSteps \<Rightarrow>
                      (case run_steps ge loopSteps running None st opts e of
                         Inl err \<Rightarrow> Inl err
                       | Inr (Inl stepResult, st1, e1) \<Rightarrow>
                           Inr (stepResult\<lparr>message := ''Loop iteration '' @ show_nat (iterations + 1)
                                                       @ '' failed: '' @ message stepResult\<rparr>, st1, e1)
                       | Inr (Inr (item1, lastResult), st1, e1) \<Rightarrow>
                           loop_while ge c body limit (Suc iterations) item1 st1 opts e1))
               else
                 (case evaluate (executor_evaluator ge) condition running VUndef of
                    Inl err \<Rightarrow> Inl err
                  | Inr conditionStillMet \<Rightarrow>
                      Inr ((plain_result True running
                              (''Loop completed after '' @ show_nat iterations @ '' iterations''
                               @ (if conditionStillMet then '' (max iterations reached)'' else '''')))
                           \<lparr>shouldLoop := Some (conditionStillMet \<and> int iterations \<ge> limit)\<rparr>,
                           st, e))))"
  by pat_completeness auto

termination executeStep
  apply (relation "measures [\<lambda>x. case x of
      Inl (Inl (ge, s, r)) \<Rightarrow> size s
    | Inl (Inr (ge, ss, r)) \<Rightarrow> size_list size ss
    | Inr (Inl (ge, bs, r)) \<Rightarrow> size_list (size_prod (\<lambda>x. 0) (size_prod (size_list size) (\<lambda>x. 0))) bs
    | Inr (Inr (ge, c, body, r)) \<Rightarrow> size_option (size_list size) body,
     \<lambda>x. case x of
      Inr (Inr (ge, c, body, mx, k, r)) \<Rightarrow> Suc (nat (mx - int k))
    | _ \<Rightarrow> 0]")
  apply (auto split: if_splits)
  done

declare loop_while.simps [simp del]

text \<open>
  The body of a loop run \<open>n\<close> times in a row, each run on the item, the execution state
  and the environment that the run before left; \<open>None\<close> if one of the runs fails or
  raises.
\<close>

fun repeat_body ::
  "GuideExecutor \<Rightarrow> GuideStep list \<Rightarrow> GuideExecutionOptions \<Rightarrow> nat
     \<Rightarrow> Item \<times> GuideExecutionState \<times> Env \<Rightarrow> (Item \<times> GuideExecutionState \<times> Env) option" where
  "repeat_body ge body opts 0 x = Some x"
| "repeat_body ge body opts (Suc n) (item, st, e) =
     (case run_steps ge body item None st opts e of
        Inr (Inr (item1, lastResult), st1, e1) \<Rightarrow> repeat_body ge body opts n (item1, st1, e1)
      | _ \<Rightarrow> None)"

section \<open>Guide manager (guideSystem)\<close>

text \<open>
  A guide follows the interface CraftGuide of \<^verbatim>\<open>types/core\<close>. The item templates and the
  estimated cost are data that the engine stores and serializes and never reads: they are
  kept as dynamic values (\<^verbatim>\<open>undefined\<close> when absent). The success rate, when present, is a
  finite number. A time stamp is its ISO string. The manager keeps its guides by id, in
  insertion order; a guide is looked up among the stored entries only.
\<close>

record CraftGuide =
  guide_id :: string
  title :: string
  guide_description :: string
  author :: string
  version :: string
  createdAt :: string
  updatedAt :: string
  startingItem :: jsval
  targetItem :: jsval
  steps :: "GuideStep list"
  estimatedCost :: jsval
  successRate :: "rat option"
  isPublic :: bool
  shareId :: "string option"

record GuideManager =
  guides :: "(string \<times> CraftGuide) list"
  guideExecutor :: GuideExecutor

definition new_GuideManager :: "ActionRegistryManager \<Rightarrow> GuideManager" where
  "new_GuideManager registry = \<lparr>guides = [], guideExecutor = new_GuideExecutor registry\<rparr>"

text \<open>
  \<^verbatim>\<open>createGuide\<close> takes a guide without id and time stamps; the model takes a guide and
  overwrites the three.
\<close>

definition createGuide :: "GuideManager \<Rightarrow> CraftGuide \<Rightarrow> Env \<Rightarrow> CraftGuide \<times> GuideManager \<times> Env" where
  "createGuide gm guide e =
     (let (u, e1) = uuidv4 e;
          (c, e2) = new_Date e1;
          (up, e3) = new_Date e2;
          newGuide = guide\<lparr>guide_id := u, createdAt := c, updatedAt := up\<rparr>
      in (newGuide, gm\<lparr>guides := AList.update u newGuide (guides gm)\<rparr>, e3))"

definition deleteGuide :: "GuideManager \<Rightarrow> string \<Rightarrow> bool \<times> GuideManager" where
  "deleteGuide gm i =
     (case map_of (guides gm) i of
        None \<Rightarrow> (False, gm)
      | Some g \<Rightarrow> (True, gm\<lparr>guides := AList.delete i (guides gm)\<rparr>))"

definition getGuide :: "GuideManager \<Rightarrow> string \<Rightarrow> CraftGuide option" where
  "getGuide gm i = map_of (guides gm) i"

definition getAllGuides :: "GuideManager \<Rightarrow> CraftGuide list" where
  "getAllGuides gm = map snd (guides gm)"

definition getGuidesByAuthor :: "GuideManager \<Rightarrow> string \<Rightarrow> CraftGuide list" where
  "getGuidesByAuthor gm a = filter (\<lambda>guide. author guide = a) (map snd (guides gm))"

subsection \<open>Running a guide\<close>

definition createExecutionState :: "string \<Rightarrow> Item \<Rightarrow> Env \<Rightarrow> GuideExecutionState \<times> Env" where
  "createExecutionState gid startItem e =
     (let (cloned, e1) = cloneItem startItem e
      in (\<lparr>guideId = gid, currentItem = cloned, currentStepIndex = 0, stepHistory = [],
           variables = []\<rparr>, e1))"

text \<open>
  \<^verbatim>\<open>guide.steps[i]\<close> below 0 is \<^verbatim>\<open>undefined\<close>, and executing it raises the TypeError of
  reading its type. On success the cursor moves to the result's next index if it has one,
  stays if the result asks to loop, and advances by one otherwise.
\<close>

definition executeNextStep ::
  "GuideManager \<Rightarrow> GuideExecutionState \<Rightarrow> GuideExecutionOptions \<Rightarrow> Env
     \<Rightarrow> error + GuideStepResult \<times> GuideExecutionState \<times> Env" where
  "executeNextStep gm st opts e =
     (case map_of (guides gm) (guideId st) of
        None \<Rightarrow> Inr (plain_result False (currentItem st) ''Guide not found'', st, e)
      | Some guide \<Rightarrow>
          if currentStepIndex st \<ge> int (length (steps guide))
          then Inr (plain_result True (currentItem st) ''Guide completed'', st, e)
          else if currentStepIndex st < 0 then Inl TypeError
          else (case executeStep (guideExecutor gm) (steps guide ! nat (currentStepIndex st))
                       (currentItem st) st opts e of
                  Inl err \<Rightarrow> Inl err
                | Inr (result, st1, e1) \<Rightarrow>
                    if success result then
                      (let st2 = st1\<lparr>currentItem := result_item result\<rparr>;
                           st3 = (case nextStepIndex result of
                                    Some n \<Rightarrow> st2\<lparr>currentStepIndex := n\<rparr>
                                  | None \<Rightarrow>
                                      if shouldLoop result \<noteq> Some True
                                      then st2\<lparr>currentStepIndex := currentStepIndex st2 + 1\<rparr>
                                      else st2)
                       in Inr (result, st3, e1))
                    else Inr (result, st1, e1)))"

text \<open>
  The \<^verbatim>\<open>while\<close> loop of \<^verbatim>\<open>executeGuide\<close>, from the step count and the results it is
  given. The result is the overall success, the final execution state and the recorded
  results.
\<close>

function guide_loop ::
  "GuideManager \<Rightarrow> CraftGuide \<Rightarrow> GuideExecutionOptions \<Rightarrow> int \<Rightarrow> nat \<Rightarrow> GuideStepResult list
     \<Rightarrow> GuideExecutionState \<Rightarrow> Env
     \<Rightarrow> error + (bool \<times> GuideExecutionState \<times> GuideStepResult list) \<times> Env" where
  "guide_loop gm guide opts budget stepCount results st e =
     (if currentStepIndex st < int (length (steps guide)) \<and> int stepCount < budget then
        (case executeNextStep gm st opts e of
           Inl err \<Rightarrow> Inl err
         | Inr (result, st1, e1) \<Rightarrow>
             if \<not> success result then Inr ((False, st1, results @ [result]), e1)
             else guide_loop gm guide opts budget (Suc stepCount) (results @ [result]) st1 e1)
      else Inr ((currentStepIndex st \<ge> int (length (steps guide)), st, results), e))"
  by pat_completeness auto
termination
  by (relation "measure (\<lambda>(gm, guide, opts, budget, stepCount, r). nat (budget - int stepCount))") auto

declare guide_loop.simps [simp del]

definition executeGuide ::
  "GuideManager \<Rightarrow> string \<Rightarrow> Item \<Rightarrow> GuideExecutionOptions \<Rightarrow> Env
     \<Rightarrow> error + (bool \<times> GuideExecutionState \<times> GuideStepResult list) \<times> Env" where
  "executeGuide gm gid startItem opts e =
     (case map_of (guides gm) gid of
        None \<Rightarrow> Inl (GuideNotFound gid)
      | Some guide \<Rightarrow>
          (let (executionState, e1) = createExecutionState gid startItem e
           in guide_loop gm guide opts (or_number (maxSteps opts) 100) 0 [] executionState e1))"

subsection \<open>Validation\<close>





subsection \<open>Export and import\<close>








section \<open>Example data\<close>

text \<open>
  An environment whose identifiers are \<^verbatim>\<open>uuid-0\<close>, \<^verbatim>\<open>uuid-1\<close>, ..., whose random draws
  are all 0 and whose clock reads \<^verbatim>\<open>t0\<close>, \<^verbatim>\<open>t1\<close>, ...; a fresh normal item; the registry
  as its constructor leaves it.
\<close>

definition env0 :: Env where
  "env0 = \<lparr>uuid_count = 0, random_source = (\<lambda>n. 0), random_count = 0,
           clock_source = (\<lambda>n. ''t'' @ show_nat n), clock_count = 0\<rparr>"

definition sword :: Item where
  "sword = \<lparr>item_id = ''item-1'', item_name = ''Sword'', baseType = ''Blade'', itemLevel = 1,
            quality = 0, isCorrupted = False, isIdentified = True, rarity = ''normal'',
            properties = [], modifiers = [], sockets = [], customData = [], item_tags = []\<rparr>"

definition default_registry :: ActionRegistryManager where
  "default_registry = fst (new_ActionRegistryManager env0)"

text \<open>A condition that compares the quality with the string \<^verbatim>\<open>'1'\<close>.\<close>

definition quality_is_one_string :: Condition where
  "quality_is_one_string = Condition ''c-1'' ''property'' ''equals'' (Some ''quality'') (VStr ''1'') None None"

text \<open>The errors that evaluating a condition can raise.\<close>

definition engine_error :: "error \<Rightarrow> bool" where
  "engine_error e = (case e of TypeError \<Rightarrow> True | UnknownOperator s \<Rightarrow> True | _ \<Rightarrow> False)"

text \<open>The Chaos Orb action as the registry's constructor registers it under \<open>env0\<close>.\<close>

definition chaos_orb_action :: CraftAction where
  "chaos_orb_action =
     \<lparr>action_id = ''chaos_orb'', action_name = ''Chaos Orb'',
      action_description = ''Rerolls all modifiers on a rare item'',
      category = ''currency'', iconUrl = None,
      preconditions = [property_equals ''uuid-0'' ''rarity'' (VStr ''rare''),
                       property_equals ''uuid-1'' ''isCorrupted'' (VBool False)],
      requirements = VObj [(''currency'', VObj [(''Chaos Orb'', VNum 1)])],
      outcomes = [\<lparr>outcome_id = ''uuid-2'', probability = Finite 1,
                   outcome_description = ''Rerolls all modifiers'',
                   changes = [bare_change ''reroll''], outcome_conditions = None\<rparr>],
      customHandler = Some ''chaos_orb'', action_tags = [''orb'', ''reroll''],
      isEnabled = True\<rparr>"

text \<open>
  The selection rule in the words of the specification: the cumulative weight of the
  outcomes up to position \<open>k\<close>, which is the sum of their weights added from the left in
  the arithmetic of the engine, and the first outcome whose cumulative weight reaches or
  exceeds the draw \<open>r\<close> (the earliest one, so ties favour the earlier outcome).
\<close>

definition cumulative :: "ActionOutcome list \<Rightarrow> nat \<Rightarrow> jsdouble" where
  "cumulative os k = foldl js_add (Finite 0) (map probability (take (Suc k) os))"

definition first_reaching :: "jsdouble \<Rightarrow> ActionOutcome list \<Rightarrow> ActionOutcome option" where
  "first_reaching r os =
     (case List.find (\<lambda>k. js_le r (cumulative os k)) [0..<length os] of
        None \<Rightarrow> None
      | Some k \<Rightarrow> Some (os ! k))"

text \<open>
  The value of the double that a decimal literal denotes (\<^verbatim>\<open>0.2\<close> is the double nearest
  to 1/5).
\<close>

definition literal :: "rat \<Rightarrow> rat" where
  "literal q = (case round_double q of Finite x \<Rightarrow> x | _ \<Rightarrow> 0)"

text \<open>
  An action without preconditions and without a handler whose two outcomes weigh
  \<^verbatim>\<open>0.2\<close> (corrupt the item) and \<^verbatim>\<open>0.8\<close> (change nothing), and an environment whose random
  source always returns \<open>u\<close>.
\<close>

definition weighted_outcome :: "string \<Rightarrow> jsdouble \<Rightarrow> ItemChange list \<Rightarrow> ActionOutcome" where
  "weighted_outcome i p cs =
     \<lparr>outcome_id = i, probability = p, outcome_description = i, changes = cs,
      outcome_conditions = None\<rparr>"

definition two_way_action :: CraftAction where
  "two_way_action =
     \<lparr>action_id = ''vaal_orb'', action_name = ''Vaal Orb'', action_description = ''Corrupts or not'',
      category = ''currency'', iconUrl = None, preconditions = [],
      requirements = VObj [],
      outcomes = [weighted_outcome ''corrupts'' (Finite (literal (1 / 5))) [bare_change ''corrupt''],
                  weighted_outcome ''nothing'' (Finite (literal (4 / 5))) []],
      customHandler = None, action_tags = [], isEnabled = True\<rparr>"

definition env_drawing :: "rat \<Rightarrow> Env" where
  "env_drawing u = env0\<lparr>random_source := (\<lambda>n. u)\<rparr>"

text \<open>
  A declarative change that asks for a tier 3 modifier named Fire Damage and carries no
  \<^verbatim>\<open>modifierId\<close>.
\<close>

definition add_fire :: ItemChange where
  "add_fire = (bare_change ''addModifier'')
                \<lparr>change_target := Some ''Fire Damage'', change_value := VObj [(''tier'', VNum 3)]\<rparr>"

text \<open>
  An action without preconditions and without a handler whose only outcome carries the
  change \<open>add_fire\<close>.
\<close>

definition fire_action :: CraftAction where
  "fire_action =
     \<lparr>action_id = ''fire_essence'', action_name = ''Fire Essence'',
      action_description = ''Adds fire damage'', category = ''currency'', iconUrl = None,
      preconditions = [], requirements = VObj [],
      outcomes = [\<lparr>outcome_id = ''o-fire'', probability = Finite 1,
                   outcome_description = ''Adds a fire damage modifier'',
                   changes = [add_fire], outcome_conditions = None\<rparr>],
      customHandler = None, action_tags = [], isEnabled = True\<rparr>"

text \<open>
  The loop scenario: a condition \<^verbatim>\<open>item.quality < 3\<close>, an action whose registered handler
  raises the quality by one, a linear step that runs the action, and a loop over that step
  with the iteration cap \<open>n\<close>.
\<close>

definition quality_below_3 :: Condition where
  "quality_below_3 = Condition ''c-loop'' ''property'' ''lessThan'' (Some ''item.quality'') (VNum 3) None None"

definition improve_quality :: handler where
  "improve_quality item action ctx e = (item\<lparr>quality := quality item + 1\<rparr>, e)"

definition whetstone :: CraftAction where
  "whetstone =
     \<lparr>action_id = ''whetstone'', action_name = ''Whetstone'',
      action_description = ''Improves the quality of an item'', category = ''currency'',
      iconUrl = None, preconditions = [], requirements = VObj [],
      outcomes = [\<lparr>outcome_id = ''o-1'', probability = Finite 1,
                   outcome_description = ''Quality improved'',
                   changes = [], outcome_conditions = None\<rparr>],
      customHandler = Some ''improve_quality'', action_tags = [], isEnabled = True\<rparr>"

definition quality_registry :: ActionRegistryManager where
  "quality_registry =
     (registerAction default_registry whetstone)
       \<lparr>actionExecutor := registerHandler (actionExecutor default_registry) ''improve_quality''
                            improve_quality\<rparr>"

definition quality_executor :: GuideExecutor where
  "quality_executor = new_GuideExecutor quality_registry"

definition sharpen_step :: GuideStep where
  "sharpen_step = LinearStep ''s-1'' (Some ''whetstone'') ''Use a whetstone'' None"

definition sharpen_loop :: "int \<Rightarrow> GuideStep" where
  "sharpen_loop n = LoopStep ''l-1'' (Some quality_below_3) (Some [sharpen_step]) (Some n) ''Sharpen''"

definition no_options :: GuideExecutionOptions where
  "no_options = \<lparr>maxSteps = None, maxLoopIterations = None, debugMode = None\<rparr>"

definition state0 :: GuideExecutionState where
  "state0 = \<lparr>guideId = ''g-1'', currentItem = sword, currentStepIndex = 0, stepHistory = [],
             variables = []\<rparr>"

text \<open>
  A guide that never finishes: its only step is a loop with cap 1 over an empty body whose
  condition (an empty \<^verbatim>\<open>and\<close>) is always true, so every run of the step succeeds and asks
  to loop, and the cursor stays on it.
\<close>

definition always_true :: Condition where
  "always_true = Condition ''c-true'' ''composite'' ''and'' None VUndef (Some []) None"

definition spin_step :: GuideStep where
  "spin_step = LoopStep ''l-0'' (Some always_true) (Some []) (Some 1) ''Spin''"

definition spin_guide :: CraftGuide where
  "spin_guide =
     \<lparr>guide_id = ''g-spin'', title = ''Spin'', guide_description = ''Never finishes'',
      author = ''nobody'', version = ''1.0'', createdAt = ''t0'', updatedAt = ''t0'',
      startingItem = VObj [], targetItem = VUndef, steps = [spin_step], estimatedCost = VUndef,
      successRate = None, isPublic = False, shareId = None\<rparr>"

definition spin_manager :: GuideManager where
  "spin_manager = \<lparr>guides = [(''g-spin'', spin_guide)], guideExecutor = new_GuideExecutor default_registry\<rparr>"

definition spin_result :: "Item \<Rightarrow> GuideStepResult" where
  "spin_result item =
     (plain_result True item ''Loop completed after 1 iterations (max iterations reached)'')
       \<lparr>shouldLoop := Some True\<rparr>"

text \<open>
  \<open>n\<close> calls of \<^verbatim>\<open>executeNextStep\<close> in a row that all succeed, each on the execution state
  and the environment that the call before left, with the results in order; \<open>None\<close> if
  one of the calls fails or raises.
\<close>

fun advance ::
  "GuideManager \<Rightarrow> GuideExecutionOptions \<Rightarrow> nat \<Rightarrow> GuideExecutionState \<times> Env
     \<Rightarrow> (GuideStepResult list \<times> GuideExecutionState \<times> Env) option" where
  "advance gm opts 0 (st, e) = Some ([], st, e)"
| "advance gm opts (Suc n) (st, e) =
     (case executeNextStep gm st opts e of
        Inl err \<Rightarrow> None
      | Inr (r, st1, e1) \<Rightarrow>
          if success r
          then (case advance gm opts n (st1, e1) of
                  None \<Rightarrow> None
                | Some (rs, x) \<Rightarrow> Some (r # rs, x))
          else None)"





section \<open>Verification\<close>

subsection \<open>Auxiliary facts\<close>



lemma strs_not_undef [simp]: "strs_to_val xs \<noteq> VUndef"
  by (simp add: strs_to_val_def)

lemma val_strs_strs [simp]: "val_strs (strs_to_val xs) = Some xs"
  by (induction xs) (auto simp: val_strs_def strs_to_val_def val_str_def)

lemma json_clean_strs [simp]: "json_clean (strs_to_val xs) = strs_to_val xs"
  by (induction xs) (auto simp: strs_to_val_def)

lemma vals_not_undef [simp]:
  "property_to_val p \<noteq> VUndef" "modifier_to_val m \<noteq> VUndef" "socket_to_val s \<noteq> VUndef"
  by (simp_all add: property_to_val_def modifier_to_val_def socket_to_val_def)



















lemma uuidv4_env0: "fst (uuidv4 env0) = ''uuid-0''"
  by (simp add: uuidv4_def uuid_text_def env0_def show_nat.simps)

subsection \<open>Identifiers do not repeat\<close>









subsection \<open>Item identity\<close>




subsection \<open>Updating a property that is not there\<close>

text \<open>
  C10: for every item and every property name that is not a key of the item's properties,
  updateProperty returns the item unchanged, without an error; in particular a declarative
  modifyProperty change whose target is such a name (a top-level field like \<^verbatim>\<open>rarity\<close>)
  leaves the item unchanged when applyChanges applies it.
\<close>

theorem updateProperty_absent_key_unchanged:
  assumes "map_of (properties item) nm = None"
  shows "updateProperty item nm v = item
         \<and> applyChanges item
             [c\<lparr>change_type := ''modifyProperty'', change_target := Some nm, change_value := v\<rparr>] e
           = Inr (item, e)"
  using assms by (simp add: updateProperty_def applyChange_def present_def)

theorem updateProperty_absent_key_unchanged_witness:
  "map_of (properties sword) ''rarity'' = None
   \<and> updateProperty sword ''rarity'' (VStr ''rare'') = sword
   \<and> applyChanges sword
        [(bare_change ''modifyProperty'')\<lparr>change_target := Some ''rarity'', change_value := VStr ''rare''\<rparr>]
        env0 = Inr (sword, env0)
   \<and> rarity sword = ''normal''"
proof -
  have absent: "map_of (properties sword) ''rarity'' = None"
    by (simp add: sword_def)
  have same: "(bare_change ''modifyProperty'')\<lparr>change_target := Some ''rarity'', change_value := VStr ''rare''\<rparr>
     = (bare_change ''modifyProperty'')\<lparr>change_type := ''modifyProperty'', change_target := Some ''rarity'', change_value := VStr ''rare''\<rparr>"
    by (simp add: bare_change_def)
  show ?thesis
    using updateProperty_absent_key_unchanged[OF absent, of "VStr ''rare''" "bare_change ''modifyProperty''" env0]
      absent same
    by (simp add: sword_def)
qed

subsection \<open>Unknown action ids\<close>

text \<open>
  C3, as stated, fails for canExecuteAction: asked about an id that is not registered, the
  registry answers false; it raises nothing.
\<close>

theorem registry_canExecuteAction_unknown_counterexample:
  "registry_canExecuteAction default_registry ''mirror_of_kalandra'' sword VUndef = Inr False"
  by (simp add: registry_canExecuteAction_def getAction_def member_of_def
      object_prototype_members_def default_registry_def
      new_ActionRegistryManager_def initializeDefaultActions_def registerAction_def uuidv4_def
      env0_def Let_def)

text \<open>
  When \<^verbatim>\<open>getAction\<close> yields nothing: the id has no entry, is not the name of a member that
  the registry object inherits, and the prototype of the registry object has not been
  replaced.
\<close>

lemma getAction_Absent_iff:
  "getAction m aid = Absent \<longleftrightarrow>
     map_of (actions m) aid = None \<and> map_of (actions m) ''__proto__'' = None
     \<and> aid \<notin> set object_prototype_members"
  by (auto simp: getAction_def member_of_def split: option.splits)

text \<open>
  An id that names an inherited member is not in the registry either, but \<^verbatim>\<open>getAction\<close>
  yields the member; both operations then raise a TypeError in the executor.
\<close>

lemma registry_inherited_member:
  "map_of (actions default_registry) ''toString'' = None
   \<and> getAction default_registry ''toString'' = Inherited
   \<and> registry_canExecuteAction default_registry ''toString'' sword VUndef = Inl TypeError
   \<and> registry_executeAction default_registry ''toString'' sword VUndef env0 = Inl TypeError"
  by (simp add: registry_canExecuteAction_def registry_executeAction_def getAction_def
      member_of_def object_prototype_members_def default_registry_def
      new_ActionRegistryManager_def initializeDefaultActions_def registerAction_def uuidv4_def
      env0_def Let_def)

text \<open>
  C3, amended: for every action id for which getAction yields nothing, executeAction by id
  fails with the action-not-found error naming the id, and canExecuteAction by id returns
  false and raises nothing.
\<close>

theorem registry_unknown_action:
  assumes "getAction m aid = Absent"
  shows "registry_executeAction m aid item ctx e = Inl (ActionNotFound aid)
         \<and> registry_canExecuteAction m aid item ctx = Inr False"
  using assms by (simp add: registry_executeAction_def registry_canExecuteAction_def)

theorem registry_unknown_action_witness:
  "getAction default_registry ''mirror_of_kalandra'' = Absent
   \<and> registry_executeAction default_registry ''mirror_of_kalandra'' sword VUndef env0
       = Inl (ActionNotFound ''mirror_of_kalandra'')
   \<and> registry_canExecuteAction default_registry ''mirror_of_kalandra'' sword VUndef = Inr False
   \<and> map fst (actions default_registry) = [''chaos_orb'', ''alchemy_orb'']"
proof -
  have absent: "getAction default_registry ''mirror_of_kalandra'' = Absent"
    by (simp add: getAction_def member_of_def object_prototype_members_def
        default_registry_def new_ActionRegistryManager_def
        initializeDefaultActions_def registerAction_def uuidv4_def env0_def Let_def)
  have ids: "map fst (actions default_registry) = [''chaos_orb'', ''alchemy_orb'']"
    by (simp add: default_registry_def new_ActionRegistryManager_def
        initializeDefaultActions_def registerAction_def uuidv4_def env0_def Let_def)
  show ?thesis
    using registry_unknown_action[OF absent, of sword VUndef env0] absent ids by simp
qed

subsection \<open>Equality of a condition\<close>

lemma strict_eq_1_str: "\<not> strict_eq (VNum 1) (VStr ''1'')"
  by simp

lemma loose_eq_1_str: "loose_eq (VNum 1) (VStr ''1'')"
  by (simp add: loose_eq_def is_object_def is_nullish_def to_primitive_def to_number_def
      string_to_number_def trim_def is_space_def read_unsigned_def digit_val_def num_eq_def)

lemma split_quality: "split_dot ''quality'' = [''quality'']"
  by simp

lemma target_quality: "getTargetValue ''quality'' item = VNum (quality item)"
  by (simp add: getTargetValue_def getNestedValue_def item_to_val_def get_member_def)

text \<open>
  C1, as stated, fails: the evaluator compares with \<^verbatim>\<open>===\<close>. On an item of quality 1
  (a number) and a condition whose value is the string \<^verbatim>\<open>'1'\<close>, the resolved value is
  \<^verbatim>\<open>==\<close>-equal to the condition's value, and equals evaluates to false.
\<close>

theorem equals_is_strict_counterexample:
  "loose_eq (getTargetValue ''quality'' (sword\<lparr>quality := 1\<rparr>)) (cond_value quality_is_one_string)
   \<and> evaluate new_ConditionEvaluator quality_is_one_string (sword\<lparr>quality := 1\<rparr>) VUndef = Inr False"
  by (simp add: target_quality quality_is_one_string_def loose_eq_1_str evaluateEquals_def)

text \<open>
  C1, amended: for every equals condition with a target, evaluate resolves the target path
  on the item and compares the resolved value with the condition's value under strict
  equality \<^verbatim>\<open>===\<close> (no type coercion), and notEquals returns the negation.
\<close>

theorem equals_compares_strictly:
  "evaluate ev (Condition cid cty ''equals'' (Some tg) v cs ce) item ctx
     = Inr (strict_eq (getTargetValue tg item) v)
   \<and> evaluate ev (Condition cid cty ''notEquals'' (Some tg) v cs ce) item ctx
     = Inr (\<not> strict_eq (getTargetValue tg item) v)"
  by (simp add: evaluateEquals_def not_result_def)

theorem equals_compares_strictly_witness:
  "evaluate new_ConditionEvaluator (Condition ''c-2'' ''property'' ''equals'' (Some ''quality'') (VNum 1) None None)
      (sword\<lparr>quality := 1\<rparr>) VUndef = Inr True
   \<and> evaluate new_ConditionEvaluator (Condition ''c-2'' ''property'' ''notEquals'' (Some ''quality'') (VNum 1) None None)
      (sword\<lparr>quality := 1\<rparr>) VUndef = Inr False"
  using equals_compares_strictly[of new_ConditionEvaluator "''c-2''" "''property''" "''quality''" "VNum 1" None None
      "sword\<lparr>quality := 1\<rparr>" VUndef]
  by (simp add: target_quality)

subsection \<open>Results that may be errors\<close>

lemma every_result_True: "every_result rs = Inr True \<longleftrightarrow> list_all (\<lambda>r. r = Inr True) rs"
  by (induction rs) (auto split: sum.splits)

lemma every_result_error: "every_result rs = Inl e \<Longrightarrow> Inl e \<in> set rs"
  by (induction rs) (auto split: sum.splits if_splits)

lemma some_result_error: "some_result rs = Inl e \<Longrightarrow> Inl e \<in> set rs"
  by (induction rs) (auto split: sum.splits if_splits)

lemma every_result_False:
  "list_all (\<lambda>r. \<not> isl r) rs \<Longrightarrow> list_ex (\<lambda>r. r = Inr False) rs \<Longrightarrow> every_result rs = Inr False"
  by (induction rs) (auto split: sum.splits)

lemma filter_result_error: "filter_result f xs = Inl e \<Longrightarrow> \<exists>x\<in>set xs. f x = Inl e"
  by (induction xs) (auto split: sum.splits)

lemma filter_result_ok: "filter_result f xs = Inr ys \<Longrightarrow> ys = filter (\<lambda>x. f x = Inr True) xs"
  by (induction xs arbitrary: ys) (auto split: sum.splits)

lemma filter_result_total:
  "list_all (\<lambda>x. \<not> isl (f x)) xs \<Longrightarrow> filter_result f xs = Inr (filter (\<lambda>x. f x = Inr True) xs)"
  by (induction xs) (auto split: sum.splits)

lemma evaluate_error: "evaluate ev c item ctx = Inl e \<Longrightarrow> engine_error e"
proof (induction ev c item ctx arbitrary: e rule: evaluate.induct)
  case (1 ev cid cty opr tg v cs ce item ctx)
  show ?case
  proof (cases "opr \<in> {''and'', ''or'', ''not''}")
    case False
    with "1.prems" show ?thesis
      by (auto simp: evaluateEquals_def evaluateGreaterThan_def evaluateLessThan_def
          evaluateContains_def evaluateHasModifier_def evaluateHasProperty_def not_result_def
          engine_error_def split: option.splits sum.splits if_splits jsval.splits)
  next
    case True
    then consider (a) "opr = ''and''" | (o) "opr = ''or''" | (n) "opr = ''not''" by auto
    then show ?thesis
    proof cases
      case a
      with "1.prems" obtain l where l: "cs = Some l" "every_result (map (\<lambda>c. evaluate ev c item ctx) l) = Inl e"
        by (auto split: option.splits)
      then obtain c where "c \<in> set l" "evaluate ev c item ctx = Inl e"
        using every_result_error by fastforce
      with "1.IH"(1)[of l c e] a l show ?thesis by simp
    next
      case o
      with "1.prems" obtain l where l: "cs = Some l" "some_result (map (\<lambda>c. evaluate ev c item ctx) l) = Inl e"
        by (auto split: option.splits)
      then obtain c where "c \<in> set l" "evaluate ev c item ctx = Inl e"
        using some_result_error by fastforce
      with "1.IH"(2)[of l c e] o l show ?thesis by simp
    next
      case n
      with "1.prems" obtain c rest where l: "cs = Some (c # rest)" "evaluate ev c item ctx = Inl e"
        by (auto simp: not_result_def split: option.splits list.splits sum.splits)
      with "1.IH"(3)[of "c # rest" c rest e] n show ?thesis by simp
    qed
  qed
qed

lemma applyChanges_error: "applyChanges item cs e = Inl err \<Longrightarrow> err = Unmodelled"
proof (induction cs arbitrary: item e)
  case Nil
  then show ?case by simp
next
  case (Cons c cs)
  then show ?case
    by (auto simp: applyChange_def split: sum.splits if_splits option.splits prod.splits)
qed

subsection \<open>Preconditions\<close>

lemma show_nat_digits:
  "show_nat 0 = ''0''" "show_nat 1 = ''1''" "show_nat 2 = ''2''" "show_nat 3 = ''3''"
  "show_nat 4 = ''4''" "show_nat 5 = ''5''"
  by (simp_all add: show_nat.simps)

lemma show_nat_Suc:
  "show_nat (Suc 0) = ''1''" "show_nat (Suc (Suc 0)) = ''2''"
  "show_nat (Suc (Suc (Suc 0))) = ''3''" "show_nat (Suc (Suc (Suc (Suc 0)))) = ''4''"
  "show_nat (Suc (Suc (Suc (Suc (Suc 0))))) = ''5''"
  using show_nat_digits by (simp_all add: numeral_eq_Suc)

lemma every_result_map_False:
  "list_all (\<lambda>x. \<not> isl (f x)) xs \<Longrightarrow> list_ex (\<lambda>x. f x = Inr False) xs
     \<Longrightarrow> every_result (map f xs) = Inr False"
  by (induction xs) (auto split: sum.splits)

lemma default_chaos: "getAction default_registry ''chaos_orb'' = Own chaos_orb_action"
  by (simp add: getAction_def member_of_def default_registry_def new_ActionRegistryManager_def
      initializeDefaultActions_def registerAction_def uuidv4_def uuid_text_def env0_def Let_def
      chaos_orb_action_def show_nat_digits show_nat_Suc)

lemma target_rarity: "getTargetValue ''rarity'' item = VStr (rarity item)"
  by (simp add: getTargetValue_def getNestedValue_def item_to_val_def get_member_def)

lemma target_isCorrupted: "getTargetValue ''isCorrupted'' item = VBool (isCorrupted item)"
  by (simp add: getTargetValue_def getNestedValue_def item_to_val_def get_member_def)

lemma chaos_preconditions:
  "map (\<lambda>c. evaluate ev c item ctx) (preconditions chaos_orb_action)
     = [Inr (rarity item = ''rare''), Inr (\<not> isCorrupted item)]"
  by (simp add: chaos_orb_action_def property_equals_def evaluateEquals_def target_rarity
      target_isCorrupted)

text \<open>
  C6: for every action and item, canExecuteAction is true iff every precondition evaluates
  true; it is true for an empty list of preconditions; a precondition that evaluates false
  keeps it from being true whatever the others are, and makes it false when no precondition
  raises an error (an error raised by an earlier precondition is raised by canExecuteAction
  itself). executeAction raises the precondition-not-met error iff canExecuteAction is
  false.
\<close>

theorem canExecute_iff_all_preconditions:
  "(canExecuteAction ex action item ctx = Inr True
      \<longleftrightarrow> list_all (\<lambda>c. evaluate (conditionEvaluator ex) c item ctx = Inr True) (preconditions action))
   \<and> (preconditions action = [] \<longrightarrow> canExecuteAction ex action item ctx = Inr True)
   \<and> (list_ex (\<lambda>c. evaluate (conditionEvaluator ex) c item ctx = Inr False) (preconditions action)
        \<longrightarrow> canExecuteAction ex action item ctx \<noteq> Inr True)
   \<and> (list_ex (\<lambda>c. evaluate (conditionEvaluator ex) c item ctx = Inr False) (preconditions action)
        \<and> list_all (\<lambda>c. \<not> isl (evaluate (conditionEvaluator ex) c item ctx)) (preconditions action)
        \<longrightarrow> canExecuteAction ex action item ctx = Inr False)
   \<and> ((\<exists>nm. executeAction ex action item ctx e = Inl (PreconditionsNotMet nm))
        \<longleftrightarrow> canExecuteAction ex action item ctx = Inr False)
   \<and> (canExecuteAction ex action item ctx = Inr False
        \<longrightarrow> executeAction ex action item ctx e = Inl (PreconditionsNotMet (action_name action)))"
proof -
  let ?ev = "\<lambda>c. evaluate (conditionEvaluator ex) c item ctx"
  have all_true: "canExecuteAction ex action item ctx = Inr True
      \<longleftrightarrow> list_all (\<lambda>c. ?ev c = Inr True) (preconditions action)"
    by (simp add: canExecuteAction_def every_result_True list_all_iff)
  have vacuous: "preconditions action = [] \<longrightarrow> canExecuteAction ex action item ctx = Inr True"
    by (simp add: canExecuteAction_def)
  have one_false: "list_ex (\<lambda>c. ?ev c = Inr False) (preconditions action)
        \<longrightarrow> canExecuteAction ex action item ctx \<noteq> Inr True"
    using all_true by (auto simp: list_all_iff list_ex_iff)
  have is_false: "list_ex (\<lambda>c. ?ev c = Inr False) (preconditions action)
        \<and> list_all (\<lambda>c. \<not> isl (?ev c)) (preconditions action)
        \<longrightarrow> canExecuteAction ex action item ctx = Inr False"
    unfolding canExecuteAction_def
    using every_result_map_False[of "?ev" "preconditions action"] by blast
  have raised: "canExecuteAction ex action item ctx = Inr False
        \<longrightarrow> executeAction ex action item ctx e = Inl (PreconditionsNotMet (action_name action))"
    by (simp add: executeAction_def)
  have only_then: "executeAction ex action item ctx e = Inl (PreconditionsNotMet nm)
        \<Longrightarrow> canExecuteAction ex action item ctx = Inr False" for nm
  proof (cases "canExecuteAction ex action item ctx")
    case (Inl err)
    assume raised: "executeAction ex action item ctx e = Inl (PreconditionsNotMet nm)"
    from Inl have "\<exists>c. ?ev c = Inl err"
      unfolding canExecuteAction_def using every_result_error by fastforce
    then have "engine_error err" using evaluate_error by blast
    moreover from Inl raised have "err = PreconditionsNotMet nm"
      by (simp add: executeAction_def)
    ultimately show ?thesis by (simp add: engine_error_def)
  next
    case (Inr ok)
    assume raised: "executeAction ex action item ctx e = Inl (PreconditionsNotMet nm)"
    show ?thesis
    proof (cases ok)
      case False
      with Inr show ?thesis by simp
    next
      case True
      show ?thesis
      proof (cases "action_handler ex action")
        case (Own h)
        with Inr True raised show ?thesis
          by (simp add: executeAction_def split: prod.splits)
      next
        case Inherited
        with Inr True raised show ?thesis
          by (simp add: executeAction_def)
      next
        case Untracked
        with Inr True raised show ?thesis
          by (simp add: executeAction_def)
      next
        case Absent
        show ?thesis
        proof (cases "filter_result (outcome_valid ex item ctx) (outcomes action)")
          case (Inl err)
          then obtain x where "outcome_valid ex item ctx x = Inl err"
            using filter_result_error by fastforce
          then have "\<exists>c. ?ev c = Inl err"
            unfolding outcome_valid_def using every_result_error
            by (fastforce split: option.splits)
          then have "engine_error err" using evaluate_error by blast
          moreover from Inl Inr True Absent raised have "err = PreconditionsNotMet nm"
            by (simp add: executeAction_def)
          ultimately show ?thesis by (simp add: engine_error_def)
        next
          case valid: (Inr validOutcomes)
          with Inr True Absent raised show ?thesis
            by (auto simp: executeAction_def split: if_splits prod.splits option.splits sum.splits
                dest: applyChanges_error)
        qed
      qed
    qed
  qed
  have iff: "(\<exists>nm. executeAction ex action item ctx e = Inl (PreconditionsNotMet nm))
        \<longleftrightarrow> canExecuteAction ex action item ctx = Inr False"
    using only_then raised by blast
  show ?thesis
    by (intro conjI all_true vacuous one_false is_false iff raised)
qed

theorem canExecute_iff_all_preconditions_witness:
  "canExecuteAction (actionExecutor default_registry) chaos_orb_action sword VUndef = Inr False
   \<and> executeAction (actionExecutor default_registry) chaos_orb_action sword VUndef env0
       = Inl (PreconditionsNotMet ''Chaos Orb'')
   \<and> canExecuteAction (actionExecutor default_registry) chaos_orb_action (sword\<lparr>rarity := ''rare''\<rparr>) VUndef
       = Inr True
   \<and> getAction default_registry ''chaos_orb'' = Own chaos_orb_action"
proof -
  let ?ex = "actionExecutor default_registry"
  note inst = canExecute_iff_all_preconditions[of ?ex chaos_orb_action _ VUndef env0]
  have some_false: "list_ex (\<lambda>c. evaluate (conditionEvaluator ?ex) c sword VUndef = Inr False)
       (preconditions chaos_orb_action)"
    by (simp add: chaos_orb_action_def property_equals_def evaluateEquals_def target_rarity
        sword_def)
  have no_error: "list_all (\<lambda>c. \<not> isl (evaluate (conditionEvaluator ?ex) c sword VUndef))
       (preconditions chaos_orb_action)"
    by (simp add: chaos_orb_action_def property_equals_def evaluateEquals_def)
  have all_true: "list_all (\<lambda>c. evaluate (conditionEvaluator ?ex) c (sword\<lparr>rarity := ''rare''\<rparr>) VUndef = Inr True)
       (preconditions chaos_orb_action)"
    by (simp add: chaos_orb_action_def property_equals_def evaluateEquals_def target_rarity
        target_isCorrupted sword_def)
  have refused: "canExecuteAction ?ex chaos_orb_action sword VUndef = Inr False"
    using inst[of sword] some_false no_error by blast
  have raised: "executeAction ?ex chaos_orb_action sword VUndef env0
       = Inl (PreconditionsNotMet (action_name chaos_orb_action))"
    using inst[of sword] refused by blast
  have allowed: "canExecuteAction ?ex chaos_orb_action (sword\<lparr>rarity := ''rare''\<rparr>) VUndef = Inr True"
    using inst[of "sword\<lparr>rarity := ''rare''\<rparr>"] all_true by blast
  show ?thesis
    using refused raised allowed default_chaos by (simp add: chaos_orb_action_def)
qed

subsection \<open>Outcome selection\<close>

lemma totalProbability_foldl: "totalProbability os = foldl js_add (Finite 0) (map probability os)"
  by (simp add: totalProbability_def foldl_map)

lemma find_mapped: "List.find P (map f xs) = map_option f (List.find (\<lambda>x. P (f x)) xs)"
  by (induction xs) simp_all

lemma find_upt_Suc:
  "List.find P [0..<Suc n] = (if P 0 then Some 0 else map_option Suc (List.find (\<lambda>k. P (Suc k)) [0..<n]))"
proof -
  have "[0..<Suc n] = 0 # map Suc [0..<n]"
    using upt_conv_Cons[of 0 "Suc n"] map_Suc_upt[of 0 n] by simp
  then show ?thesis
    by (simp add: find_mapped del: upt_Suc)
qed

lemma walk_outcomes_find:
  "walk_outcomes r acc os =
     (case List.find (\<lambda>k. js_le r (foldl js_add acc (map probability (take (Suc k) os))))
             [0..<length os] of
        None \<Rightarrow> None
      | Some k \<Rightarrow> Some (os ! k))"
proof (induction os arbitrary: acc)
  case Nil
  then show ?case by simp
next
  case (Cons outcome rest)
  show ?case
  proof (cases "js_le r (js_add acc (probability outcome))")
    case True
    then show ?thesis
      by (simp add: find_upt_Suc del: upt_Suc)
  next
    case False
    show ?thesis
    proof (cases "List.find (\<lambda>k. js_le r (foldl js_add (js_add acc (probability outcome))
                                      (map probability (take (Suc k) rest)))) [0..<length rest]")
      case None
      with False Cons.IH[of "js_add acc (probability outcome)"] show ?thesis
        by (simp add: find_upt_Suc del: upt_Suc)
    next
      case (Some k)
      with False Cons.IH[of "js_add acc (probability outcome)"] show ?thesis
        by (simp add: find_upt_Suc del: upt_Suc)
    qed
  qed
qed

lemma select_with_first_reaching:
  "select_with u os =
     (case first_reaching (js_mul (Finite u) (totalProbability os)) os of
        Some outcome \<Rightarrow> Some outcome
      | None \<Rightarrow> if os = [] then None else Some (last os))"
  by (simp add: select_with_def first_reaching_def cumulative_def walk_outcomes_find)

lemma cumulative_all: "os \<noteq> [] \<Longrightarrow> cumulative os (length os - 1) = totalProbability os"
  by (simp add: cumulative_def totalProbability_foldl)

text \<open>
  The arithmetic is that of the engine: with the weights 1 and 2 and the draw
  \<^verbatim>\<open>3002399751580331 / 2^53\<close>, the exact product with the sum 3 lies above 1, but the
  product that the engine computes is 1, so the first outcome is reached.
\<close>

lemma rounding_at_the_boundary:
  "js_add (js_add (Finite 0) (Finite 1)) (Finite 2) = Finite 3
   \<and> 1 < (3002399751580331 / 2 ^ 53) * (3 :: rat)
   \<and> js_mul (Finite (3002399751580331 / 2 ^ 53)) (Finite 3) = Finite 1
   \<and> js_le (Finite 1) (js_add (Finite 0) (Finite 1))"
  by code_simp

text \<open>
  C5: on the declarative path (preconditions met, nothing found in the table of handlers
  for the action, no error in evaluating the outcomes' conditions), executeAction keeps the
  outcomes with no conditions or with all conditions true on the unmodified item; it fails
  with the no-valid-outcome error iff none is kept; the sum of the kept weights is the
  cumulative weight of the last kept outcome; when the sum is at most 0 it selects the
  first kept outcome without drawing; otherwise, for the draw \<open>r = Math.random() * sum\<close>,
  it selects the first outcome whose cumulative weight reaches or exceeds \<open>r\<close>, and the
  last outcome if there is none. The sums, the product and the comparisons are those of
  double arithmetic. The changes of the selected outcome are then applied to the item. The
  witness runs the weights \<^verbatim>\<open>[0.2, 0.8]\<close>: their sum is 1, the scaled draw \<^verbatim>\<open>0.1\<close>
  selects the first outcome, the scaled draw \<^verbatim>\<open>0.9\<close> the second.
\<close>

theorem declarative_outcome_selection:
  assumes pre: "canExecuteAction ex action item ctx = Inr True"
    and declarative: "action_handler ex action = Absent"
    and filtered: "filter_result (outcome_valid ex item ctx) (outcomes action) = Inr valid"
  shows "valid = filter (\<lambda>outcome. outcome_valid ex item ctx outcome = Inr True) (outcomes action)
    \<and> (\<forall>outcome. outcome_valid ex item ctx outcome = Inr True \<longleftrightarrow>
          (case outcome_conditions outcome of
             None \<Rightarrow> True
           | Some cs \<Rightarrow> list_all (\<lambda>c. evaluate (conditionEvaluator ex) c item ctx = Inr True) cs))
    \<and> ((\<exists>nm. executeAction ex action item ctx e = Inl (NoValidOutcomes nm)) \<longleftrightarrow> valid = [])
    \<and> (valid \<noteq> [] \<longrightarrow> totalProbability valid = cumulative valid (length valid - 1))
    \<and> (valid \<noteq> [] \<and> js_le (totalProbability valid) (Finite 0) \<longrightarrow>
          executeAction ex action item ctx e =
            (case applyChanges item (changes (hd valid)) e of
               Inl err \<Rightarrow> Inl err
             | Inr (modifiedItem, e2) \<Rightarrow> Inr ((modifiedItem, Some (hd valid)), e2)))
    \<and> (valid \<noteq> [] \<and> \<not> js_le (totalProbability valid) (Finite 0) \<longrightarrow>
          executeAction ex action item ctx e =
            (let r = js_mul (Finite (fst (Math_random e))) (totalProbability valid);
                 selected = (case first_reaching r valid of
                               Some outcome \<Rightarrow> outcome
                             | None \<Rightarrow> last valid)
             in case applyChanges item (changes selected) (snd (Math_random e)) of
                  Inl err \<Rightarrow> Inl err
                | Inr (modifiedItem, e2) \<Rightarrow> Inr ((modifiedItem, Some selected), e2)))"
proof -
  have kept: "valid = filter (\<lambda>outcome. outcome_valid ex item ctx outcome = Inr True) (outcomes action)"
    using filtered by (rule filter_result_ok)
  have eligible: "\<forall>outcome. outcome_valid ex item ctx outcome = Inr True \<longleftrightarrow>
          (case outcome_conditions outcome of
             None \<Rightarrow> True
           | Some cs \<Rightarrow> list_all (\<lambda>c. evaluate (conditionEvaluator ex) c item ctx = Inr True) cs)"
    by (simp add: outcome_valid_def every_result_True list_all_iff split: option.splits)
  have run: "executeAction ex action item ctx e =
      (if valid = [] then Inl (NoValidOutcomes (action_name action))
       else (let (sel, e1) = selectOutcomeByProbability valid e in
               (case sel of
                  None \<Rightarrow> Inl TypeError
                | Some selectedOutcome \<Rightarrow>
                    (case applyChanges item (changes selectedOutcome) e1 of
                       Inl err \<Rightarrow> Inl err
                     | Inr (modifiedItem, e2) \<Rightarrow> Inr ((modifiedItem, Some selectedOutcome), e2)))))"
    using pre declarative filtered by (simp add: executeAction_def)
  have none_valid: "(\<exists>nm. executeAction ex action item ctx e = Inl (NoValidOutcomes nm)) \<longleftrightarrow> valid = []"
  proof
    assume "\<exists>nm. executeAction ex action item ctx e = Inl (NoValidOutcomes nm)"
    then obtain nm where nm: "executeAction ex action item ctx e = Inl (NoValidOutcomes nm)" ..
    show "valid = []"
    proof (rule ccontr)
      assume "valid \<noteq> []"
      with nm run show False
        by (auto split: prod.splits option.splits sum.splits dest: applyChanges_error)
    qed
  next
    assume "valid = []"
    with run show "\<exists>nm. executeAction ex action item ctx e = Inl (NoValidOutcomes nm)" by simp
  qed
  have total: "valid \<noteq> [] \<longrightarrow> totalProbability valid = cumulative valid (length valid - 1)"
    using cumulative_all[of valid] by (intro impI) (rule sym)
  have flat: "valid \<noteq> [] \<and> js_le (totalProbability valid) (Finite 0) \<longrightarrow>
          executeAction ex action item ctx e =
            (case applyChanges item (changes (hd valid)) e of
               Inl err \<Rightarrow> Inl err
             | Inr (modifiedItem, e2) \<Rightarrow> Inr ((modifiedItem, Some (hd valid)), e2))"
  proof (intro impI, elim conjE)
    assume v: "valid \<noteq> []" and t: "js_le (totalProbability valid) (Finite 0)"
    then have "selectOutcomeByProbability valid e = (Some (hd valid), e)"
      by (cases valid) (simp_all add: selectOutcomeByProbability_def)
    with run v show "executeAction ex action item ctx e =
            (case applyChanges item (changes (hd valid)) e of
               Inl err \<Rightarrow> Inl err
             | Inr (modifiedItem, e2) \<Rightarrow> Inr ((modifiedItem, Some (hd valid)), e2))"
      by simp
  qed
  have weighted: "valid \<noteq> [] \<and> \<not> js_le (totalProbability valid) (Finite 0) \<longrightarrow>
          executeAction ex action item ctx e =
            (let r = js_mul (Finite (fst (Math_random e))) (totalProbability valid);
                 selected = (case first_reaching r valid of
                               Some outcome \<Rightarrow> outcome
                             | None \<Rightarrow> last valid)
             in case applyChanges item (changes selected) (snd (Math_random e)) of
                  Inl err \<Rightarrow> Inl err
                | Inr (modifiedItem, e2) \<Rightarrow> Inr ((modifiedItem, Some selected), e2))"
    using run
    by (auto simp: selectOutcomeByProbability_def select_with_first_reaching Let_def
        split: prod.splits option.splits)
  show ?thesis
    by (intro conjI kept eligible none_valid total flat weighted)
qed

lemma literal_fifth: "round_double (1 / 5) = Finite (literal (1 / 5))"
  by code_simp

lemma literal_four_fifths: "round_double (4 / 5) = Finite (literal (4 / 5))"
  by code_simp

lemma literal_tenth: "round_double (1 / 10) = Finite (literal (1 / 10))"
  by code_simp

lemma literal_nine_tenths: "round_double (9 / 10) = Finite (literal (9 / 10))"
  by code_simp

lemma literal_values:
  "literal (1 / 5) = 3602879701896397 / 18014398509481984"
  "literal (4 / 5) = 3602879701896397 / 4503599627370496"
  "literal (1 / 10) = 3602879701896397 / 36028797018963968"
  "literal (9 / 10) = 8106479329266893 / 9007199254740992"
  by code_simp+

lemma first_sum: "js_add (Finite 0) (Finite (literal (1 / 5))) = Finite (literal (1 / 5))"
  by code_simp

lemma second_sum: "js_add (Finite (literal (1 / 5))) (Finite (literal (4 / 5))) = Finite 1"
  by code_simp

lemma scaled_tenth: "js_mul (Finite (literal (1 / 10))) (Finite 1) = Finite (literal (1 / 10))"
  by code_simp

lemma scaled_nine_tenths: "js_mul (Finite (literal (9 / 10))) (Finite 1) = Finite (literal (9 / 10))"
  by code_simp

lemma compared:
  "js_le (Finite (literal (1 / 10))) (Finite (literal (1 / 5)))"
  "\<not> js_le (Finite (literal (9 / 10))) (Finite (literal (1 / 5)))"
  "js_le (Finite (literal (9 / 10))) (Finite 1)"
  "\<not> js_le (Finite 1) (Finite 0)"
  by code_simp+


lemma two_way_valid:
  "filter_result (outcome_valid ex item ctx) (outcomes two_way_action) = Inr (outcomes two_way_action)"
  by (simp add: two_way_action_def weighted_outcome_def outcome_valid_def)

lemma two_way_total: "totalProbability (outcomes two_way_action) = Finite 1"
  by (simp add: two_way_action_def weighted_outcome_def totalProbability_def first_sum second_sum)

lemma two_way_first:
  "first_reaching (Finite (literal (1 / 10))) (outcomes two_way_action)
     = Some (weighted_outcome ''corrupts'' (Finite (literal (1 / 5))) [bare_change ''corrupt''])"
  by (simp add: first_reaching_def cumulative_def two_way_action_def weighted_outcome_def
      first_sum compared)

lemma two_way_second:
  "first_reaching (Finite (literal (9 / 10))) (outcomes two_way_action)
     = Some (weighted_outcome ''nothing'' (Finite (literal (4 / 5))) [])"
  by (simp add: first_reaching_def cumulative_def two_way_action_def weighted_outcome_def
      upt_conv_Cons first_sum second_sum compared)

theorem declarative_outcome_selection_witness:
  "canExecuteAction (actionExecutor default_registry) two_way_action sword VUndef = Inr True
   \<and> action_handler (actionExecutor default_registry) two_way_action = Absent
   \<and> map probability (outcomes two_way_action) = [round_double (1 / 5), round_double (4 / 5)]
   \<and> totalProbability (outcomes two_way_action) = Finite 1
   \<and> js_mul (Finite (fst (Math_random (env_drawing (literal (1 / 10))))))
         (totalProbability (outcomes two_way_action)) = round_double (1 / 10)
   \<and> js_mul (Finite (fst (Math_random (env_drawing (literal (9 / 10))))))
         (totalProbability (outcomes two_way_action)) = round_double (9 / 10)
   \<and> map_sum id (\<lambda>r. (isCorrupted (fst (fst r)), map_option outcome_id (snd (fst r))))
        (executeAction (actionExecutor default_registry) two_way_action sword VUndef
           (env_drawing (literal (1 / 10))))
       = Inr (True, Some ''corrupts'')
   \<and> map_sum id (\<lambda>r. (isCorrupted (fst (fst r)), map_option outcome_id (snd (fst r))))
        (executeAction (actionExecutor default_registry) two_way_action sword VUndef
           (env_drawing (literal (9 / 10))))
       = Inr (False, Some ''nothing'')"
proof -
  let ?ex = "actionExecutor default_registry"
  have pre: "canExecuteAction ?ex two_way_action sword VUndef = Inr True"
    by (simp add: canExecuteAction_def two_way_action_def)
  have declarative: "action_handler ?ex two_way_action = Absent"
    by (simp add: action_handler_def two_way_action_def present_def)
  have weights: "map probability (outcomes two_way_action) = [round_double (1 / 5), round_double (4 / 5)]"
    by (simp add: two_way_action_def weighted_outcome_def literal_fifth literal_four_fifths)
  note inst = declarative_outcome_selection[OF pre declarative two_way_valid,
      THEN conjunct2, THEN conjunct2, THEN conjunct2, THEN conjunct2, THEN conjunct2, rule_format]
  have nonempty: "outcomes two_way_action \<noteq> []"
    by (simp add: two_way_action_def)
  have draw: "Math_random (env_drawing u) = (u, (env_drawing u)\<lparr>random_count := 1\<rparr>)" for u
    by (simp add: Math_random_def env_drawing_def env0_def)
  have scaled_low: "js_mul (Finite (fst (Math_random (env_drawing (literal (1 / 10))))))
         (totalProbability (outcomes two_way_action)) = round_double (1 / 10)"
    by (simp add: draw two_way_total scaled_tenth literal_tenth)
  have scaled_high: "js_mul (Finite (fst (Math_random (env_drawing (literal (9 / 10))))))
         (totalProbability (outcomes two_way_action)) = round_double (9 / 10)"
    by (simp add: draw two_way_total scaled_nine_tenths literal_nine_tenths)
  have corrupting: "applyChange sword (bare_change ''corrupt'') e = Inr (corruptItem sword, e)" for e
    by (simp add: applyChange_def bare_change_def)
  have run_low: "executeAction ?ex two_way_action sword VUndef (env_drawing (literal (1 / 10)))
       = Inr ((corruptItem sword,
               Some (weighted_outcome ''corrupts'' (Finite (literal (1 / 5))) [bare_change ''corrupt''])),
              (env_drawing (literal (1 / 10)))\<lparr>random_count := 1\<rparr>)"
    using inst[of "env_drawing (literal (1 / 10))"] nonempty
    by (simp add: two_way_total draw scaled_tenth two_way_first corrupting weighted_outcome_def
        compared)
  have run_high: "executeAction ?ex two_way_action sword VUndef (env_drawing (literal (9 / 10)))
       = Inr ((sword, Some (weighted_outcome ''nothing'' (Finite (literal (4 / 5))) [])),
              (env_drawing (literal (9 / 10)))\<lparr>random_count := 1\<rparr>)"
    using inst[of "env_drawing (literal (9 / 10))"] nonempty
    by (simp add: two_way_total draw scaled_nine_tenths two_way_second weighted_outcome_def
        compared)
  have low: "map_sum id (\<lambda>r. (isCorrupted (fst (fst r)), map_option outcome_id (snd (fst r))))
        (executeAction ?ex two_way_action sword VUndef (env_drawing (literal (1 / 10))))
       = Inr (True, Some ''corrupts'')"
    unfolding run_low by (simp add: corruptItem_def weighted_outcome_def)
  have high: "map_sum id (\<lambda>r. (isCorrupted (fst (fst r)), map_option outcome_id (snd (fst r))))
        (executeAction ?ex two_way_action sword VUndef (env_drawing (literal (9 / 10))))
       = Inr (False, Some ''nothing'')"
    unfolding run_high by (simp add: sword_def weighted_outcome_def)
  show ?thesis
    by (intro conjI pre declarative weights two_way_total scaled_low scaled_high low high)
qed

subsection \<open>Applying the changes of an outcome\<close>

lemma applyChanges_append:
  "applyChanges item (cs1 @ cs2) e =
     (case applyChanges item cs1 e of
        Inl err \<Rightarrow> Inl err
      | Inr (item1, e1) \<Rightarrow> applyChanges item1 cs2 e1)"
  by (induction cs1 arbitrary: item e) (auto split: sum.splits)

text \<open>
  What applyChanges does with a change of type addModifier at the head of the list. With a
  non-empty modifierId, whatever it is, the modifier made from the target and the tier is
  appended and the rest of the changes is applied to the result; without one the change is
  passed over. The modifierId decides whether the change is applied and is not read
  otherwise.
\<close>

lemma addModifier_change_with_id:
  assumes "change_type c = ''addModifier''" "present (modifierId c)"
    and "change_target c = Some tg" "change_tier (change_value c) = Some t"
  shows "applyChanges item (c # rest) e =
           applyChanges
             (addModifier item \<lparr>mod_id = fst (uuidv4 e), mod_name = tg, tier = t, mod_values = [],
                                 mod_type = ''prefix'', mod_tags = []\<rparr>)
             rest (snd (uuidv4 e))"
  using assms by (simp add: applyChange_def createModifier_def split: prod.splits)

lemma addModifier_change_without_id:
  assumes "change_type c = ''addModifier''" "\<not> present (modifierId c)"
  shows "applyChanges item (c # rest) e = applyChanges item rest e"
  using assms by (simp add: applyChange_def)

lemma fire_total: "totalProbability (outcomes fire_action) = Finite 1"
proof -
  have "js_add (Finite 0) (Finite 1) = Finite 1" by code_simp
  then show ?thesis
    by (simp add: fire_action_def totalProbability_def)
qed

lemma fire_selected:
  "selectOutcomeByProbability (outcomes fire_action) env0
     = (Some (hd (outcomes fire_action)), env0\<lparr>random_count := 1\<rparr>)"
proof -
  have sums: "js_add (Finite 0) (Finite 1) = Finite 1" "js_mul (Finite 0) (Finite 1) = Finite 0"
    by code_simp+
  have le: "\<not> js_le (Finite 1) (Finite 0)" "js_le (Finite 0) (Finite 1)"
    by (simp_all add: js_le_def)
  have walk: "walk_outcomes (Finite 0) (Finite 0) (outcomes fire_action) = Some (hd (outcomes fire_action))"
    by (simp add: fire_action_def sums le)
  show ?thesis
    by (simp add: selectOutcomeByProbability_def fire_total le select_with_def Math_random_def
        env0_def sums walk)
qed

text \<open>
  C4: the claim holds of every change but those of type addModifier, where the code
  departs from it. The \<^verbatim>\<open>addModifier\<close> branch of applyChanges makes the modifier from
  \<^verbatim>\<open>change.target\<close> and the tier in \<^verbatim>\<open>change.value\<close>, as the claim says, but runs only under
  \<^verbatim>\<open>if (change.modifierId)\<close>, a field that the branch does not read. Executing an action
  whose selected outcome carries the change \<^verbatim>\<open>add_fire\<close> (type addModifier, target Fire
  Damage, tier 3, no modifierId) returns the item with no modifier; the same change with a
  modifierId, here \<^verbatim>\<open>m-1\<close>, appends the modifier Fire Damage of tier 3.
\<close>

theorem addModifier_skipped_without_modifierId:
  "change_type add_fire = ''addModifier''
   \<and> change_target add_fire = Some ''Fire Damage''
   \<and> change_tier (change_value add_fire) = Some 3
   \<and> modifierId add_fire = None
   \<and> map changes (outcomes fire_action) = [[add_fire]]
   \<and> applyChanges sword [add_fire] env0 = Inr (sword, env0)
   \<and> map_sum id (\<lambda>r. (fst (fst r), map_option outcome_id (snd (fst r))))
        (executeAction (actionExecutor default_registry) fire_action sword VUndef env0)
       = Inr (sword, Some ''o-fire'')
   \<and> modifiers sword = []
   \<and> applyChanges sword [add_fire\<lparr>modifierId := Some ''m-1''\<rparr>] env0
       = Inr (sword\<lparr>modifiers := [\<lparr>mod_id = ''uuid-0'', mod_name = ''Fire Damage'', tier = 3,
                                     mod_values = [], mod_type = ''prefix'', mod_tags = []\<rparr>]\<rparr>,
              env0\<lparr>uuid_count := 1\<rparr>)"
proof -
  have tier3: "change_tier (change_value add_fire) = Some 3"
    by (simp add: add_fire_def bare_change_def change_tier_def get_member_def truthy_def
        val_num_def)
  have fields: "change_type add_fire = ''addModifier''" "change_target add_fire = Some ''Fire Damage''"
    "modifierId add_fire = None"
    by (simp_all add: add_fire_def bare_change_def)
  have carried: "map changes (outcomes fire_action) = [[add_fire]]"
    by (simp add: fire_action_def)
  have skipped: "applyChanges sword [add_fire] e = Inr (sword, e)" for e
    using addModifier_change_without_id[of add_fire sword "[]" e] fields
    by (simp add: present_def)
  have pre: "canExecuteAction (actionExecutor default_registry) fire_action sword VUndef = Inr True"
    by (simp add: canExecuteAction_def fire_action_def)
  have declarative: "action_handler (actionExecutor default_registry) fire_action = Absent"
    by (simp add: action_handler_def fire_action_def present_def)
  have kept: "filter_result (outcome_valid (actionExecutor default_registry) sword VUndef)
        (outcomes fire_action) = Inr (outcomes fire_action)"
    by (simp add: fire_action_def outcome_valid_def)
  have first: "changes (hd (outcomes fire_action)) = [add_fire]"
    "outcome_id (hd (outcomes fire_action)) = ''o-fire''" "length (outcomes fire_action) = 1"
    by (simp_all add: fire_action_def)
  have run: "executeAction (actionExecutor default_registry) fire_action sword VUndef env0
      = Inr ((sword, Some (hd (outcomes fire_action))), env0\<lparr>random_count := 1\<rparr>)"
    by (simp add: executeAction_def pre declarative kept fire_selected first skipped
        del: applyChanges.simps)
  have executed: "map_sum id (\<lambda>r. (fst (fst r), map_option outcome_id (snd (fst r))))
        (executeAction (actionExecutor default_registry) fire_action sword VUndef env0)
       = Inr (sword, Some ''o-fire'')"
    unfolding run by (simp add: first)
  have none: "modifiers sword = []"
    by (simp add: sword_def)
  have with_id: "applyChanges sword [add_fire\<lparr>modifierId := Some ''m-1''\<rparr>] env0
       = Inr (sword\<lparr>modifiers := [\<lparr>mod_id = ''uuid-0'', mod_name = ''Fire Damage'', tier = 3,
                                     mod_values = [], mod_type = ''prefix'', mod_tags = []\<rparr>]\<rparr>,
              env0\<lparr>uuid_count := 1\<rparr>)"
    using addModifier_change_with_id[of "add_fire\<lparr>modifierId := Some ''m-1''\<rparr>" "''Fire Damage''" 3
        sword "[]" env0] fields tier3
    by (simp add: present_def addModifier_def uuidv4_def uuid_text_def env0_def sword_def
        show_nat_digits)
  show ?thesis
    by (intro conjI fields tier3 carried skipped executed none with_id)
qed

subsection \<open>Loop steps\<close>

lemma run_steps_failed:
  "run_steps ge ss item lastResult st opts e = Inr (Inl sub, st', e') \<Longrightarrow> \<not> success sub"
proof (induction ss arbitrary: item lastResult st e)
  case Nil
  then show ?case by simp
next
  case (Cons s ss)
  then show ?case
    by (auto split: sum.splits prod.splits if_splits)
qed

lemma loop_while_result:
  assumes "loop_while ge (Some c) (Some body) L k item st opts e = Inr (r, st', e')"
  shows "\<exists>n. (\<forall>j<n. \<exists>x. repeat_body ge body opts j (item, st, e) = Some x
                 \<and> evaluate (executor_evaluator ge) c (fst x) VUndef = Inr True \<and> int (k + j) < L)
     \<and> ((success r
          \<and> repeat_body ge body opts n (item, st, e) = Some (result_item r, st', e')
          \<and> (\<exists>still. evaluate (executor_evaluator ge) c (result_item r) VUndef = Inr still
                \<and> \<not> (still \<and> int (k + n) < L)
                \<and> shouldLoop r = Some (still \<and> int (k + n) \<ge> L)
                \<and> message r = ''Loop completed after '' @ show_nat (k + n) @ '' iterations''
                              @ (if still then '' (max iterations reached)'' else [])))
        \<or> (\<not> success r
          \<and> (\<exists>x sub. repeat_body ge body opts n (item, st, e) = Some x
                \<and> evaluate (executor_evaluator ge) c (fst x) VUndef = Inr True \<and> int (k + n) < L
                \<and> run_steps ge body (fst x) None (fst (snd x)) opts (snd (snd x)) = Inr (Inl sub, st', e')
                \<and> \<not> success sub
                \<and> r = sub\<lparr>message := ''Loop iteration '' @ show_nat (k + n + 1) @ '' failed: ''
                                       @ message sub\<rparr>)))"
  using assms
proof (induction "nat (L - int k)" arbitrary: k item st e rule: less_induct)
  case less
  let ?ev = "evaluate (executor_evaluator ge) c"
  from less.prems obtain holds where holds: "?ev item VUndef = Inr holds"
    by (subst (asm) loop_while.simps) (auto split: sum.splits)
  show ?case
  proof (cases "holds \<and> int k < L")
    case False
    with less.prems holds have r: "r = (plain_result True item
            (''Loop completed after '' @ show_nat k @ '' iterations''
             @ (if holds then '' (max iterations reached)'' else [])))
           \<lparr>shouldLoop := Some (holds \<and> int k \<ge> L)\<rparr>" and same: "st' = st" "e' = e"
      by (subst (asm) loop_while.simps, auto)+
    show ?thesis
      apply (rule exI[of _ 0])
      using r same holds False by (auto simp: plain_result_def)
  next
    case True
    from less.prems holds True obtain body_result st1 e1
      where run: "run_steps ge body item None st opts e = Inr (body_result, st1, e1)"
      by (subst (asm) loop_while.simps) (auto split: sum.splits)
    show ?thesis
    proof (cases body_result)
      case (Inl sub)
      with less.prems holds True run
      have r: "r = sub\<lparr>message := ''Loop iteration '' @ show_nat (k + 1) @ '' failed: '' @ message sub\<rparr>"
        and same: "st' = st1" "e' = e1"
        by (subst (asm) loop_while.simps, auto)+
      from run Inl have failed: "\<not> success sub"
        using run_steps_failed by blast
      show ?thesis
        apply (rule exI[of _ 0])
        using r same holds True run Inl failed by auto
    next
      case (Inr fin)
      obtain item1 lastResult where fin: "fin = (item1, lastResult)" by (cases fin)
      from less.prems holds True run Inr fin
      have rec: "loop_while ge (Some c) (Some body) L (Suc k) item1 st1 opts e1 = Inr (r, st', e')"
        by (subst (asm) loop_while.simps) auto
      have smaller: "nat (L - int (Suc k)) < nat (L - int k)"
        using True by auto
      from less.hyps[OF smaller rec] obtain n where
        before: "\<forall>j<n. \<exists>x. repeat_body ge body opts j (item1, st1, e1) = Some x
                 \<and> ?ev (fst x) VUndef = Inr True \<and> int (Suc k + j) < L"
        and after: "(success r
          \<and> repeat_body ge body opts n (item1, st1, e1) = Some (result_item r, st', e')
          \<and> (\<exists>still. ?ev (result_item r) VUndef = Inr still
                \<and> \<not> (still \<and> int (Suc k + n) < L)
                \<and> shouldLoop r = Some (still \<and> int (Suc k + n) \<ge> L)
                \<and> message r = ''Loop completed after '' @ show_nat (Suc k + n) @ '' iterations''
                              @ (if still then '' (max iterations reached)'' else [])))
        \<or> (\<not> success r
          \<and> (\<exists>x sub. repeat_body ge body opts n (item1, st1, e1) = Some x
                \<and> ?ev (fst x) VUndef = Inr True \<and> int (Suc k + n) < L
                \<and> run_steps ge body (fst x) None (fst (snd x)) opts (snd (snd x)) = Inr (Inl sub, st', e')
                \<and> \<not> success sub
                \<and> r = sub\<lparr>message := ''Loop iteration '' @ show_nat (Suc k + n + 1) @ '' failed: ''
                                       @ message sub\<rparr>))"
        by blast
      have step: "repeat_body ge body opts (Suc j) (item, st, e) = repeat_body ge body opts j (item1, st1, e1)" for j
        using run Inr fin by simp
      have before': "\<forall>j<Suc n. \<exists>x. repeat_body ge body opts j (item, st, e) = Some x
                 \<and> ?ev (fst x) VUndef = Inr True \<and> int (k + j) < L"
      proof (intro allI impI)
        fix j assume j: "j < Suc n"
        show "\<exists>x. repeat_body ge body opts j (item, st, e) = Some x
                 \<and> ?ev (fst x) VUndef = Inr True \<and> int (k + j) < L"
        proof (cases j)
          case 0
          with holds True show ?thesis by simp
        next
          case (Suc j')
          with j before have "\<exists>x. repeat_body ge body opts j' (item1, st1, e1) = Some x
                 \<and> ?ev (fst x) VUndef = Inr True \<and> int (Suc k + j') < L" by simp
          with Suc step show ?thesis by simp
        qed
      qed
      show ?thesis
        apply (rule exI[of _ "Suc n"])
        apply (rule conjI[OF before'])
        using after step by simp
    qed
  qed
qed

text \<open>
  C7: a loop step repeats its body while its condition holds on the current item and the
  iteration count is below the cap (the step's own maxIterations when it is set and not 0,
  else options.maxLoopIterations when set and not 0, else 10). Whenever the step returns a
  result, there is a number \<open>n\<close> of completed iterations: the condition held and the
  count was below the cap before each of them, and each ran on what the one before left.
  Either the result is a success on the item after those \<open>n\<close> iterations, the loop
  stopped because the condition is false or the cap is reached, and shouldLoop is true
  exactly when the condition is still true at the cap; or iteration \<open>n + 1\<close> was entered,
  a sub-step failed in it, and the result is that sub-step's failed result with the message
  prefixed by the iteration number \<open>n + 1\<close>. The witness runs the scenario: condition
  \<^verbatim>\<open>item.quality < 3\<close>, a body that raises the quality by one, starting quality 0; with
  cap 5 the loop ends after 3 iterations at quality 3 with shouldLoop false, with cap 2 it
  ends at quality 2 with shouldLoop true.
\<close>

theorem loop_step_semantics:
  assumes "executeStep ge (LoopStep sid (Some c) (Some body) m d) item st opts e = Inr (r, st', e')"
  shows "(\<forall>v. m = Some v \<and> v \<noteq> 0 \<longrightarrow> loop_limit m opts = v)
    \<and> (\<forall>w. (m = None \<or> m = Some 0) \<and> maxLoopIterations opts = Some w \<and> w \<noteq> 0
          \<longrightarrow> loop_limit m opts = w)
    \<and> ((m = None \<or> m = Some 0) \<and> (maxLoopIterations opts = None \<or> maxLoopIterations opts = Some 0)
          \<longrightarrow> loop_limit m opts = 10)
    \<and> (\<exists>n. (\<forall>j<n. \<exists>x. repeat_body ge body opts j (item, st, e) = Some x
                 \<and> evaluate (executor_evaluator ge) c (fst x) VUndef = Inr True
                 \<and> int j < loop_limit m opts)
     \<and> ((success r
          \<and> repeat_body ge body opts n (item, st, e) = Some (result_item r, st', e')
          \<and> (\<exists>still. evaluate (executor_evaluator ge) c (result_item r) VUndef = Inr still
                \<and> \<not> (still \<and> int n < loop_limit m opts)
                \<and> shouldLoop r = Some (still \<and> int n \<ge> loop_limit m opts)
                \<and> message r = ''Loop completed after '' @ show_nat n @ '' iterations''
                              @ (if still then '' (max iterations reached)'' else [])))
        \<or> (\<not> success r
          \<and> (\<exists>x sub. repeat_body ge body opts n (item, st, e) = Some x
                \<and> evaluate (executor_evaluator ge) c (fst x) VUndef = Inr True
                \<and> int n < loop_limit m opts
                \<and> run_steps ge body (fst x) None (fst (snd x)) opts (snd (snd x)) = Inr (Inl sub, st', e')
                \<and> \<not> success sub
                \<and> r = sub\<lparr>message := ''Loop iteration '' @ show_nat (n + 1) @ '' failed: ''
                                       @ message sub\<rparr>))))"
proof -
  have own: "\<forall>v. m = Some v \<and> v \<noteq> 0 \<longrightarrow> loop_limit m opts = v"
    by (simp add: loop_limit_def or_number_def)
  have from_options: "\<forall>w. (m = None \<or> m = Some 0) \<and> maxLoopIterations opts = Some w \<and> w \<noteq> 0
          \<longrightarrow> loop_limit m opts = w"
    by (auto simp: loop_limit_def or_number_def)
  have fallback: "(m = None \<or> m = Some 0) \<and> (maxLoopIterations opts = None \<or> maxLoopIterations opts = Some 0)
          \<longrightarrow> loop_limit m opts = 10"
    by (auto simp: loop_limit_def or_number_def)
  from assms have "loop_while ge (Some c) (Some body) (loop_limit m opts) 0 item st opts e = Inr (r, st', e')"
    by simp
  from loop_while_result[OF this] have run: "\<exists>n. (\<forall>j<n. \<exists>x. repeat_body ge body opts j (item, st, e) = Some x
                 \<and> evaluate (executor_evaluator ge) c (fst x) VUndef = Inr True
                 \<and> int j < loop_limit m opts)
     \<and> ((success r
          \<and> repeat_body ge body opts n (item, st, e) = Some (result_item r, st', e')
          \<and> (\<exists>still. evaluate (executor_evaluator ge) c (result_item r) VUndef = Inr still
                \<and> \<not> (still \<and> int n < loop_limit m opts)
                \<and> shouldLoop r = Some (still \<and> int n \<ge> loop_limit m opts)
                \<and> message r = ''Loop completed after '' @ show_nat n @ '' iterations''
                              @ (if still then '' (max iterations reached)'' else [])))
        \<or> (\<not> success r
          \<and> (\<exists>x sub. repeat_body ge body opts n (item, st, e) = Some x
                \<and> evaluate (executor_evaluator ge) c (fst x) VUndef = Inr True
                \<and> int n < loop_limit m opts
                \<and> run_steps ge body (fst x) None (fst (snd x)) opts (snd (snd x)) = Inr (Inl sub, st', e')
                \<and> \<not> success sub
                \<and> r = sub\<lparr>message := ''Loop iteration '' @ show_nat (n + 1) @ '' failed: ''
                                       @ message sub\<rparr>)))"
    by simp
  show ?thesis
    by (intro conjI own from_options fallback run)
qed

lemma below_3: "evaluate ev quality_below_3 item VUndef = Inr (quality item < 3)"
  by (simp add: quality_below_3_def evaluateLessThan_def getTargetValue_def getNestedValue_def
      item_to_val_def get_member_def to_number_def num_less_def)

lemma sharpen_once:
  "executeStep quality_executor sharpen_step item st opts e =
     Inr (plain_result True (item\<lparr>quality := quality item + 1\<rparr>)
            ''Successfully executed whetstone: Quality improved'',
          logStepExecution st ''s-1'' item (item\<lparr>quality := quality item + 1\<rparr>) e)"
proof -
  have found: "getAction quality_registry ''whetstone'' = Own whetstone"
    by (simp add: getAction_def member_of_def quality_registry_def registerAction_def update_conv'
        whetstone_def)
  have allowed: "canExecuteAction (actionExecutor quality_registry) whetstone item VUndef = Inr True"
    by (simp add: canExecuteAction_def whetstone_def)
  have handled: "action_handler (actionExecutor quality_registry) whetstone = Own improve_quality"
    by (simp add: action_handler_def member_of_def quality_registry_def registerHandler_def
        whetstone_def present_def)
  have reported: "outcomes whetstone =
      [\<lparr>outcome_id = ''o-1'', probability = Finite 1, outcome_description = ''Quality improved'',
        changes = [], outcome_conditions = None\<rparr>]"
    by (simp add: whetstone_def)
  have executed: "executeAction (actionExecutor quality_registry) whetstone item VUndef e =
      Inr ((item\<lparr>quality := quality item + 1\<rparr>,
            Some \<lparr>outcome_id = ''o-1'', probability = Finite 1,
                  outcome_description = ''Quality improved'',
                  changes = [], outcome_conditions = None\<rparr>), e)"
    by (simp add: executeAction_def allowed handled improve_quality_def reported)
  show ?thesis
    by (simp add: sharpen_step_def executeLinearStep_def quality_executor_def new_GuideExecutor_def
        registry_canExecuteAction_def registry_executeAction_def found allowed executed
        split: prod.splits)
qed

lemma log_length:
  "length (stepHistory (fst (logStepExecution st sid a b e))) = Suc (length (stepHistory st))"
  by (simp add: logStepExecution_def cloneItem_def new_Date_def split: prod.splits)

lemma sharpen_loop_step:
  assumes "quality item < 3" "int k < L"
  shows "loop_while quality_executor (Some quality_below_3) (Some [sharpen_step]) L k item st opts e =
         loop_while quality_executor (Some quality_below_3) (Some [sharpen_step]) L (Suc k)
           (item\<lparr>quality := quality item + 1\<rparr>)
           (fst (logStepExecution st ''s-1'' item (item\<lparr>quality := quality item + 1\<rparr>) e)) opts
           (snd (logStepExecution st ''s-1'' item (item\<lparr>quality := quality item + 1\<rparr>) e))"
  using assms
  by (subst loop_while.simps) (simp add: below_3 sharpen_once plain_result_def case_prod_beta)

lemma sharpen_loop_exit:
  assumes "\<not> (quality item < 3 \<and> int k < L)"
  shows "loop_while quality_executor (Some quality_below_3) (Some [sharpen_step]) L k item st opts e =
         Inr ((plain_result True item
                 (''Loop completed after '' @ show_nat k @ '' iterations''
                  @ (if quality item < 3 then '' (max iterations reached)'' else [])))
              \<lparr>shouldLoop := Some (quality item < 3 \<and> int k \<ge> L)\<rparr>, st, e)"
  using assms
  by (subst loop_while.simps) (auto simp: below_3)

theorem loop_step_semantics_witness:
  "(\<exists>r st1 e1.
      executeStep quality_executor (sharpen_loop 5) sword state0 no_options env0 = Inr (r, st1, e1)
      \<and> success r \<and> quality (result_item r) = 3 \<and> shouldLoop r = Some False
      \<and> message r = ''Loop completed after 3 iterations''
      \<and> length (stepHistory st1) = 3
      \<and> (\<exists>n. repeat_body quality_executor [sharpen_step] no_options n (sword, state0, env0)
                = Some (result_item r, st1, e1)))
   \<and> (\<exists>r st1 e1.
      executeStep quality_executor (sharpen_loop 2) sword state0 no_options env0 = Inr (r, st1, e1)
      \<and> success r \<and> quality (result_item r) = 2 \<and> shouldLoop r = Some True
      \<and> message r = ''Loop completed after 2 iterations (max iterations reached)''
      \<and> length (stepHistory st1) = 2
      \<and> (\<exists>n. repeat_body quality_executor [sharpen_step] no_options n (sword, state0, env0)
                = Some (result_item r, st1, e1)))"
proof -
  let ?up = "\<lambda>i. i\<lparr>quality := quality i + 1\<rparr>"
  let ?log = "\<lambda>i (p :: GuideExecutionState \<times> Env). logStepExecution (fst p) ''s-1'' i (?up i) (snd p)"
  let ?p1 = "?log sword (state0, env0)"
  let ?p2 = "?log (?up sword) ?p1"
  let ?p3 = "?log (?up (?up sword)) ?p2"
  have q0: "quality sword = 0" by (simp add: sword_def)
  have limit5: "loop_limit (Some 5) no_options = 5" and limit2: "loop_limit (Some 2) no_options = 2"
    by (simp_all add: loop_limit_def or_number_def)
  have run5: "executeStep quality_executor (sharpen_loop 5) sword state0 no_options env0 =
      Inr ((plain_result True (?up (?up (?up sword))) ''Loop completed after 3 iterations'')
             \<lparr>shouldLoop := Some False\<rparr>, fst ?p3, snd ?p3)"
    by (simp add: sharpen_loop_def limit5 sharpen_loop_step sharpen_loop_exit q0 show_nat_Suc)
  have run2: "executeStep quality_executor (sharpen_loop 2) sword state0 no_options env0 =
      Inr ((plain_result True (?up (?up sword))
              ''Loop completed after 2 iterations (max iterations reached)'')
             \<lparr>shouldLoop := Some True\<rparr>, fst ?p2, snd ?p2)"
    by (simp add: sharpen_loop_def limit2 sharpen_loop_step sharpen_loop_exit q0 show_nat_Suc)
  have len3: "length (stepHistory (fst ?p3)) = 3" and len2: "length (stepHistory (fst ?p2)) = 2"
    by (simp_all add: log_length state0_def)
  let ?r5 = "(plain_result True (?up (?up (?up sword))) ''Loop completed after 3 iterations'')
             \<lparr>shouldLoop := Some False\<rparr>"
  let ?r2 = "(plain_result True (?up (?up sword))
              ''Loop completed after 2 iterations (max iterations reached)'')
             \<lparr>shouldLoop := Some True\<rparr>"
  note sem5 = loop_step_semantics[OF run5[unfolded sharpen_loop_def],
      THEN conjunct2, THEN conjunct2, THEN conjunct2]
  note sem2 = loop_step_semantics[OF run2[unfolded sharpen_loop_def],
      THEN conjunct2, THEN conjunct2, THEN conjunct2]
  have ok5: "success ?r5" and ok2: "success ?r2"
    by (simp_all add: plain_result_def)
  from sem5 ok5 have ran5: "\<exists>n. repeat_body quality_executor [sharpen_step] no_options n (sword, state0, env0)
      = Some (result_item ?r5, fst ?p3, snd ?p3)"
    by blast
  from sem2 ok2 have ran2: "\<exists>n. repeat_body quality_executor [sharpen_step] no_options n (sword, state0, env0)
      = Some (result_item ?r2, fst ?p2, snd ?p2)"
    by blast
  have first: "\<exists>r st1 e1.
      executeStep quality_executor (sharpen_loop 5) sword state0 no_options env0 = Inr (r, st1, e1)
      \<and> success r \<and> quality (result_item r) = 3 \<and> shouldLoop r = Some False
      \<and> message r = ''Loop completed after 3 iterations''
      \<and> length (stepHistory st1) = 3
      \<and> (\<exists>n. repeat_body quality_executor [sharpen_step] no_options n (sword, state0, env0)
                = Some (result_item r, st1, e1))"
    apply (rule exI[of _ ?r5], rule exI[of _ "fst ?p3"], rule exI[of _ "snd ?p3"])
    apply (intro conjI run5 ok5 len3 ran5)
    apply (simp_all add: plain_result_def q0)
    done
  have second: "\<exists>r st1 e1.
      executeStep quality_executor (sharpen_loop 2) sword state0 no_options env0 = Inr (r, st1, e1)
      \<and> success r \<and> quality (result_item r) = 2 \<and> shouldLoop r = Some True
      \<and> message r = ''Loop completed after 2 iterations (max iterations reached)''
      \<and> length (stepHistory st1) = 2
      \<and> (\<exists>n. repeat_body quality_executor [sharpen_step] no_options n (sword, state0, env0)
                = Some (result_item r, st1, e1))"
    apply (rule exI[of _ ?r2], rule exI[of _ "fst ?p2"], rule exI[of _ "snd ?p2"])
    apply (intro conjI run2 ok2 len2 ran2)
    apply (simp_all add: plain_result_def q0)
    done
  show ?thesis
    by (intro conjI first second)
qed

subsection \<open>Running a guide\<close>

lemma advance_length: "advance gm opts n x = Some (rs, y) \<Longrightarrow> length rs = n"
proof (induction n arbitrary: x rs y)
  case 0
  then show ?case by (cases x) simp
next
  case (Suc n)
  obtain st e where x: "x = (st, e)" by (cases x)
  from Suc.prems x show ?case
    by (auto split: sum.splits prod.splits if_splits option.splits dest: Suc.IH)
qed

lemma advance_success: "advance gm opts n x = Some (rs, y) \<Longrightarrow> list_all success rs"
proof (induction n arbitrary: x rs y)
  case 0
  then show ?case by (cases x) simp
next
  case (Suc n)
  obtain st e where x: "x = (st, e)" by (cases x)
  from Suc.prems x show ?case
    by (auto split: sum.splits prod.splits if_splits option.splits dest: Suc.IH)
qed

lemma guide_loop_result:
  assumes "guide_loop gm guide opts B k rs st e = Inr ((ok, st', rs'), e')"
  shows "\<exists>n new. rs' = rs @ new
     \<and> (\<forall>j<n. \<exists>x. advance gm opts j (st, e) = Some x
            \<and> currentStepIndex (fst (snd x)) < int (length (steps guide)) \<and> int (k + j) < B)
     \<and> ((advance gm opts n (st, e) = Some (new, st', e')
          \<and> ok = (currentStepIndex st' \<ge> int (length (steps guide)))
          \<and> \<not> (currentStepIndex st' < int (length (steps guide)) \<and> int (k + n) < B))
        \<or> (\<exists>done_rs sti ei r. advance gm opts n (st, e) = Some (done_rs, sti, ei)
              \<and> currentStepIndex sti < int (length (steps guide)) \<and> int (k + n) < B
              \<and> executeNextStep gm sti opts ei = Inr (r, st', e')
              \<and> \<not> success r \<and> new = done_rs @ [r] \<and> \<not> ok))"
  using assms
proof (induction "nat (B - int k)" arbitrary: k rs st e rule: less_induct)
  case less
  let ?len = "int (length (steps guide))"
  show ?case
  proof (cases "currentStepIndex st < ?len \<and> int k < B")
    case False
    with less.prems have "ok = (currentStepIndex st \<ge> ?len)" "st' = st" "rs' = rs" "e' = e"
      by (subst (asm) guide_loop.simps, auto)+
    with False show ?thesis
      by (intro exI[of _ 0] exI[of _ "[]"]) auto
  next
    case True
    from less.prems True obtain r st1 e1 where nxt: "executeNextStep gm st opts e = Inr (r, st1, e1)"
      by (subst (asm) guide_loop.simps) (auto split: sum.splits)
    show ?thesis
    proof (cases "success r")
      case False
      with less.prems True nxt have "ok = False" "st' = st1" "rs' = rs @ [r]" "e' = e1"
        by (subst (asm) guide_loop.simps, auto)+
      with False True nxt show ?thesis
        by (intro exI[of _ 0] exI[of _ "[r]"]) auto
    next
      case ok_r: True
      with less.prems True nxt
      have rec: "guide_loop gm guide opts B (Suc k) (rs @ [r]) st1 e1 = Inr ((ok, st', rs'), e')"
        by (subst (asm) guide_loop.simps) auto
      have smaller: "nat (B - int (Suc k)) < nat (B - int k)"
        using True by auto
      from less.hyps[OF smaller rec] obtain n new where
        res: "rs' = (rs @ [r]) @ new"
        and before: "\<forall>j<n. \<exists>x. advance gm opts j (st1, e1) = Some x
            \<and> currentStepIndex (fst (snd x)) < ?len \<and> int (Suc k + j) < B"
        and after: "(advance gm opts n (st1, e1) = Some (new, st', e')
          \<and> ok = (currentStepIndex st' \<ge> ?len)
          \<and> \<not> (currentStepIndex st' < ?len \<and> int (Suc k + n) < B))
        \<or> (\<exists>done_rs sti ei r. advance gm opts n (st1, e1) = Some (done_rs, sti, ei)
              \<and> currentStepIndex sti < ?len \<and> int (Suc k + n) < B
              \<and> executeNextStep gm sti opts ei = Inr (r, st', e')
              \<and> \<not> success r \<and> new = done_rs @ [r] \<and> \<not> ok)"
        by blast
      have step: "advance gm opts (Suc j) (st, e) =
          (case advance gm opts j (st1, e1) of None \<Rightarrow> None | Some (rs, x) \<Rightarrow> Some (r # rs, x))" for j
        using nxt ok_r by simp
      have before': "\<forall>j<Suc n. \<exists>x. advance gm opts j (st, e) = Some x
            \<and> currentStepIndex (fst (snd x)) < ?len \<and> int (k + j) < B"
      proof (intro allI impI)
        fix j assume j: "j < Suc n"
        show "\<exists>x. advance gm opts j (st, e) = Some x
            \<and> currentStepIndex (fst (snd x)) < ?len \<and> int (k + j) < B"
        proof (cases j)
          case 0
          with True show ?thesis by simp
        next
          case (Suc j')
          with j before obtain x where "advance gm opts j' (st1, e1) = Some x"
            "currentStepIndex (fst (snd x)) < ?len" "int (Suc k + j') < B" by auto
          with Suc step[of j'] show ?thesis by (cases x) auto
        qed
      qed
      from after show ?thesis
      proof
        assume a: "advance gm opts n (st1, e1) = Some (new, st', e')
          \<and> ok = (currentStepIndex st' \<ge> ?len)
          \<and> \<not> (currentStepIndex st' < ?len \<and> int (Suc k + n) < B)"
        then have "advance gm opts (Suc n) (st, e) = Some (r # new, st', e')"
          using step[of n] by simp
        with a res before' show ?thesis
          by (intro exI[of _ "Suc n"] exI[of _ "r # new"]) auto
      next
        assume "\<exists>done_rs sti ei r. advance gm opts n (st1, e1) = Some (done_rs, sti, ei)
              \<and> currentStepIndex sti < ?len \<and> int (Suc k + n) < B
              \<and> executeNextStep gm sti opts ei = Inr (r, st', e')
              \<and> \<not> success r \<and> new = done_rs @ [r] \<and> \<not> ok"
        then obtain done_rs sti ei r' where b: "advance gm opts n (st1, e1) = Some (done_rs, sti, ei)"
              "currentStepIndex sti < ?len" "int (Suc k + n) < B"
              "executeNextStep gm sti opts ei = Inr (r', st', e')"
              "\<not> success r'" "new = done_rs @ [r']" "\<not> ok" by blast
        then have "advance gm opts (Suc n) (st, e) = Some (r # done_rs, sti, ei)"
          using step[of n] by simp
        with b res before' show ?thesis
          by (intro exI[of _ "Suc n"] exI[of _ "r # new"]) auto
      qed
    qed
  qed
qed

text \<open>
  C8: executeGuide starts at step 0 and calls executeNextStep repeatedly. Whenever it
  returns, there is a number \<open>n\<close> of calls that succeeded in a row, each made while the
  cursor was before the end and the count of calls below the budget (options.maxSteps when
  set and not 0, else 100). Either the recorded results are exactly the results of those
  \<open>n\<close> calls and the run stopped because the cursor reached the end or the budget is
  used up, with overall success exactly when the cursor reached the end; or one more call
  was made and failed, its result is the last one recorded, and the overall success is
  false. So overall success is true only if the cursor reached the end; and if every
  recorded step succeeded but the cursor did not reach the end, exactly as many results as
  the budget are recorded: exactly 100 by default.
\<close>

theorem executeGuide_runs_until_end_failure_or_budget:
  assumes found: "map_of (guides gm) gid = Some guide"
    and run: "executeGuide gm gid startItem opts e = Inr ((ok, st', results), e')"
  shows "((maxSteps opts = None \<or> maxSteps opts = Some 0) \<longrightarrow> or_number (maxSteps opts) 100 = 100)
   \<and> (\<forall>v. maxSteps opts = Some v \<and> v \<noteq> 0 \<longrightarrow> or_number (maxSteps opts) 100 = v)
   \<and> currentStepIndex (fst (createExecutionState gid startItem e)) = 0
   \<and> (\<exists>n. (\<forall>j<n. \<exists>x. advance gm opts j (createExecutionState gid startItem e) = Some x
                \<and> currentStepIndex (fst (snd x)) < int (length (steps guide))
                \<and> int j < or_number (maxSteps opts) 100)
        \<and> ((advance gm opts n (createExecutionState gid startItem e) = Some (results, st', e')
             \<and> ok = (currentStepIndex st' \<ge> int (length (steps guide)))
             \<and> \<not> (currentStepIndex st' < int (length (steps guide))
                   \<and> int n < or_number (maxSteps opts) 100))
           \<or> (\<exists>done_rs sti ei r.
                 advance gm opts n (createExecutionState gid startItem e) = Some (done_rs, sti, ei)
                 \<and> currentStepIndex sti < int (length (steps guide))
                 \<and> int n < or_number (maxSteps opts) 100
                 \<and> executeNextStep gm sti opts ei = Inr (r, st', e')
                 \<and> \<not> success r \<and> results = done_rs @ [r] \<and> \<not> ok)))
   \<and> (ok \<longrightarrow> currentStepIndex st' \<ge> int (length (steps guide)))
   \<and> (list_all success results \<and> \<not> ok \<and> 0 \<le> or_number (maxSteps opts) 100
        \<longrightarrow> int (length results) = or_number (maxSteps opts) 100)
   \<and> (list_all success results \<and> \<not> ok \<and> (maxSteps opts = None \<or> maxSteps opts = Some 0)
        \<longrightarrow> length results = 100)"
proof -
  let ?B = "or_number (maxSteps opts) 100"
  let ?init = "createExecutionState gid startItem e"
  let ?len = "int (length (steps guide))"
  have default_budget: "(maxSteps opts = None \<or> maxSteps opts = Some 0) \<longrightarrow> ?B = 100"
    by (auto simp: or_number_def)
  have own_budget: "\<forall>v. maxSteps opts = Some v \<and> v \<noteq> 0 \<longrightarrow> ?B = v"
    by (simp add: or_number_def)
  have from_zero: "currentStepIndex (fst ?init) = 0"
    by (simp add: createExecutionState_def cloneItem_def split: prod.splits)
  obtain st0 e0 where init: "?init = (st0, e0)" by (cases ?init)
  from run found init have "guide_loop gm guide opts ?B 0 [] st0 e0 = Inr ((ok, st', results), e')"
    by (simp add: executeGuide_def)
  from guide_loop_result[OF this] obtain n new where
    appended: "results = [] @ new"
    and before: "\<forall>j<n. \<exists>x. advance gm opts j (st0, e0) = Some x
                \<and> currentStepIndex (fst (snd x)) < ?len \<and> int (0 + j) < ?B"
    and after0: "(advance gm opts n (st0, e0) = Some (new, st', e')
             \<and> ok = (currentStepIndex st' \<ge> ?len)
             \<and> \<not> (currentStepIndex st' < ?len \<and> int (0 + n) < ?B))
           \<or> (\<exists>done_rs sti ei r. advance gm opts n (st0, e0) = Some (done_rs, sti, ei)
                 \<and> currentStepIndex sti < ?len \<and> int (0 + n) < ?B
                 \<and> executeNextStep gm sti opts ei = Inr (r, st', e')
                 \<and> \<not> success r \<and> new = done_rs @ [r] \<and> \<not> ok)"
    by blast
  from appended have new: "new = results" by simp
  have after: "(advance gm opts n (st0, e0) = Some (results, st', e')
             \<and> ok = (currentStepIndex st' \<ge> ?len)
             \<and> \<not> (currentStepIndex st' < ?len \<and> int n < ?B))
           \<or> (\<exists>done_rs sti ei r. advance gm opts n (st0, e0) = Some (done_rs, sti, ei)
                 \<and> currentStepIndex sti < ?len \<and> int n < ?B
                 \<and> executeNextStep gm sti opts ei = Inr (r, st', e')
                 \<and> \<not> success r \<and> results = done_rs @ [r] \<and> \<not> ok)"
    using after0 unfolding new by simp
  have shape: "\<exists>n. (\<forall>j<n. \<exists>x. advance gm opts j ?init = Some x
                \<and> currentStepIndex (fst (snd x)) < ?len \<and> int j < ?B)
        \<and> ((advance gm opts n ?init = Some (results, st', e')
             \<and> ok = (currentStepIndex st' \<ge> ?len)
             \<and> \<not> (currentStepIndex st' < ?len \<and> int n < ?B))
           \<or> (\<exists>done_rs sti ei r. advance gm opts n ?init = Some (done_rs, sti, ei)
                 \<and> currentStepIndex sti < ?len \<and> int n < ?B
                 \<and> executeNextStep gm sti opts ei = Inr (r, st', e')
                 \<and> \<not> success r \<and> results = done_rs @ [r] \<and> \<not> ok))"
    unfolding init using before after by (intro exI[of _ n]) simp
  have at_end: "ok \<longrightarrow> currentStepIndex st' \<ge> ?len"
    using after by auto
  have exhausted: "list_all success results \<and> \<not> ok \<and> 0 \<le> ?B \<longrightarrow> int (length results) = ?B"
  proof (intro impI, elim conjE)
    assume all_ok: "list_all success results" and not_ok: "\<not> ok" and nonneg: "0 \<le> ?B"
    from after all_ok have a: "advance gm opts n (st0, e0) = Some (results, st', e')"
      "ok = (currentStepIndex st' \<ge> ?len)" "\<not> (currentStepIndex st' < ?len \<and> int n < ?B)"
      by (auto simp: list_all_iff)
    from a(1) have len: "length results = n" by (rule advance_length)
    from a(2,3) not_ok have upper: "?B \<le> int n" by auto
    have lower: "int n \<le> ?B"
    proof (cases n)
      case 0
      with nonneg show ?thesis by simp
    next
      case (Suc n')
      with before have "int n' < ?B" by auto
      with Suc show ?thesis by simp
    qed
    from len upper lower show "int (length results) = ?B" by simp
  qed
  have exactly_100: "list_all success results \<and> \<not> ok \<and> (maxSteps opts = None \<or> maxSteps opts = Some 0)
        \<longrightarrow> length results = 100"
    using exhausted default_budget by auto
  show ?thesis
    by (intro conjI default_budget own_budget from_zero shape at_end exhausted exactly_100)
qed

lemma always_true_holds: "evaluate ev always_true item VUndef = Inr True"
  by (simp add: always_true_def)

lemma spin_once:
  "executeStep ge spin_step item st opts e = Inr (spin_result item, st, e)"
proof -
  have limit: "loop_limit (Some 1) opts = 1"
    by (simp add: loop_limit_def or_number_def)
  have second: "loop_while ge (Some always_true) (Some []) 1 (Suc 0) item st opts e
      = Inr (spin_result item, st, e)"
    by (subst loop_while.simps) (simp add: always_true_holds spin_result_def show_nat_Suc)
  have first: "loop_while ge (Some always_true) (Some []) 1 0 item st opts e
      = loop_while ge (Some always_true) (Some []) 1 (Suc 0) item st opts e"
    by (subst loop_while.simps) (simp add: always_true_holds)
  show ?thesis
    by (simp add: spin_step_def limit first second)
qed

lemma spin_next:
  assumes "guideId st = ''g-spin''" "currentStepIndex st = 0"
  shows "executeNextStep spin_manager st opts e = Inr (spin_result (currentItem st), st, e)"
  using assms
  by (simp add: executeNextStep_def spin_manager_def spin_guide_def spin_once spin_result_def
      plain_result_def)

lemma spin_loop:
  assumes "guideId st = ''g-spin''" "currentStepIndex st = 0" "int k \<le> B"
  shows "guide_loop spin_manager spin_guide opts B k rs st e =
         Inr ((False, st, rs @ replicate (nat (B - int k)) (spin_result (currentItem st))), e)"
  using assms
proof (induction "nat (B - int k)" arbitrary: k rs)
  case 0
  then have "int k = B" by simp
  with 0 show ?case
    by (subst guide_loop.simps) (simp add: spin_guide_def)
next
  case (Suc d)
  then have less: "int k < B" and rest: "d = nat (B - int (Suc k))" and le: "int (Suc k) \<le> B"
    by auto
  have unfold: "nat (B - int k) = Suc (nat (B - int (Suc k)))"
    using less by auto
  have "guide_loop spin_manager spin_guide opts B k rs st e =
        guide_loop spin_manager spin_guide opts B (Suc k) (rs @ [spin_result (currentItem st)]) st e"
    using less Suc.prems
    by (subst guide_loop.simps) (simp add: spin_guide_def spin_next[unfolded spin_guide_def] spin_result_def plain_result_def)
  also have "\<dots> = Inr ((False, st, (rs @ [spin_result (currentItem st)])
        @ replicate (nat (B - int (Suc k))) (spin_result (currentItem st))), e)"
    using Suc.hyps(1)[OF rest Suc.prems(1,2) le] .
  finally show ?case
    by (simp add: unfold)
qed

theorem executeGuide_runs_until_end_failure_or_budget_witness:
  "\<exists>ok st rs e1.
     map_of (guides spin_manager) ''g-spin'' = Some spin_guide
     \<and> executeGuide spin_manager ''g-spin'' sword no_options env0 = Inr ((ok, st, rs), e1)
     \<and> \<not> ok \<and> list_all success rs \<and> length rs = 100
     \<and> currentStepIndex st = 0 \<and> length (steps spin_guide) = 1"
proof -
  obtain st0 e0 where init: "createExecutionState ''g-spin'' sword env0 = (st0, e0)"
    by (cases "createExecutionState ''g-spin'' sword env0")
  then have st0: "guideId st0 = ''g-spin''" "currentStepIndex st0 = 0"
    by (auto simp: createExecutionState_def cloneItem_def split: prod.splits)
  have found: "map_of (guides spin_manager) ''g-spin'' = Some spin_guide"
    by (simp add: spin_manager_def)
  have budget: "or_number (maxSteps no_options) 100 = 100"
    by (simp add: no_options_def or_number_def)
  let ?rs = "replicate 100 (spin_result (currentItem st0))"
  have run: "executeGuide spin_manager ''g-spin'' sword no_options env0 = Inr ((False, st0, ?rs), e0)"
    using spin_loop[OF st0, of 0 100 no_options "[]" e0]
    by (simp add: executeGuide_def found init budget)
  have all_ok: "list_all success ?rs"
    by (simp add: list_all_iff spin_result_def plain_result_def)
  have unset: "maxSteps no_options = None \<or> maxSteps no_options = Some 0"
    by (simp add: no_options_def)
  from executeGuide_runs_until_end_failure_or_budget[OF found run] all_ok unset
  have hundred: "length ?rs = 100"
    by blast
  have one_step: "length (steps spin_guide) = 1"
    by (simp add: spin_guide_def)
  show ?thesis
    apply (rule exI[of _ False], rule exI[of _ st0], rule exI[of _ ?rs], rule exI[of _ e0])
    using found run all_ok hundred st0 one_step by blast
qed

subsection \<open>Export and import of a guide\<close>












end
